theory Spec2Isabelle
  imports Complex_Main "HOL-Library.AList" "HOL-Library.Log_Nat"
begin

section \<open>Hospitalist compensation calculator (FY27, A+B salary model)\<close>

text \<open>
  A shallow embedding of \<^verbatim>\<open>calculate_compensation\<close> of
  \<^verbatim>\<open>src/hospitalist_calculator.py\<close> and of the constants it reads.

  Numbers. A Python \<^verbatim>\<open>int\<close> is an \<^typ>\<open>int\<close>. A Python \<^verbatim>\<open>float\<close> is a rational
  (\<^typ>\<open>rat\<close>), and the function is embedded twice. In \<open>calculate_compensation\<close> every
  arithmetic step is the mathematical one, with no binary rounding of intermediate results:
  this is the arithmetic the formulas of the specification are written in. In
  \<open>calculate_compensation_fl\<close> every float operation is followed by a rounding function
  \<open>fl\<close>; with \<open>fl64\<close>, rounding to the nearest binary64 number, it is the arithmetic
  the program runs. The two rounding rules of the program
  (\<^verbatim>\<open>int(x + 0.5)\<close> and \<^verbatim>\<open>round(x)\<close>) are modelled as the functions Python documents:
  truncation toward zero, and rounding to the nearest integer with ties to even.

  Dictionaries. A Python \<^verbatim>\<open>dict\<close> is an association list in insertion order;
  \<^verbatim>\<open>d.get(k, v)\<close> reads the first binding of \<^verbatim>\<open>k\<close>, \<^verbatim>\<open>d[k] = v\<close> is
  \<^const>\<open>AList.update\<close> (an existing key keeps its place, a new key goes last). A list
  that stands for a real \<^verbatim>\<open>dict\<close> has distinct keys.

  Errors. The only exception the arithmetic of the function can raise is
  \<^verbatim>\<open>ZeroDivisionError\<close>, from \<^verbatim>\<open>/\<close>; every division goes through \<open>truediv\<close>, and
  the function returns \<open>error + CalculationResult\<close>.
\<close>

subsection \<open>Python primitives\<close>

datatype error = ZeroDivisionError

text \<open>\<^verbatim>\<open>a / b\<close>: true division, raising on a zero divisor.\<close>

definition truediv :: "rat \<Rightarrow> rat \<Rightarrow> error + rat" where
  "truediv a b = (if b = 0 then Inl ZeroDivisionError else Inr (a / b))"

text \<open>Sequencing: an exception raised by a step ends the call.\<close>

definition bind_result :: "error + 'a \<Rightarrow> ('a \<Rightarrow> error + 'b) \<Rightarrow> error + 'b" where
  "bind_result m f = (case m of Inl e \<Rightarrow> Inl e | Inr x \<Rightarrow> f x)"

text \<open>\<^verbatim>\<open>int(x)\<close> of a float: truncation toward zero.\<close>

definition py_int :: "rat \<Rightarrow> int" where
  "py_int x = (if 0 \<le> x then floor x else ceiling x)"

text \<open>\<^verbatim>\<open>round(x)\<close> of a float (Python 3, one argument): the nearest integer, an exact
  half going to the even neighbour.\<close>

definition py_round :: "rat \<Rightarrow> int" where
  "py_round x =
     (let f = floor x; d = x - of_int f
      in if d < 1 / 2 then f
         else if 1 / 2 < d then f + 1
         else if even f then f else f + 1)"

text \<open>\<^verbatim>\<open>d.get(key, default)\<close>.\<close>

definition dict_get :: "('k \<times> 'v) list \<Rightarrow> 'k \<Rightarrow> 'v \<Rightarrow> 'v" where
  "dict_get d key dflt = (case map_of d key of Some v \<Rightarrow> v | None \<Rightarrow> dflt)"

subsection \<open>\<^verbatim>\<open>datetime.date\<close>\<close>

text \<open>
  A date is its year, month and day. Comparison is the lexicographic one on
  (year, month, day); the difference of two dates in days is the difference of their
  proleptic Gregorian ordinals, computed as the standard library does
  (\<^verbatim>\<open>_days_before_year\<close>, \<^verbatim>\<open>_days_before_month\<close>, \<^verbatim>\<open>_ymd2ord\<close>).
\<close>

datatype date = Date (year: int) (month: int) (day: int)

definition date_le :: "date \<Rightarrow> date \<Rightarrow> bool" where
  "date_le a b =
     (year a < year b \<or>
      (year a = year b \<and> (month a < month b \<or> (month a = month b \<and> day a \<le> day b))))"

definition date_gt :: "date \<Rightarrow> date \<Rightarrow> bool" where
  "date_gt a b =
     (year b < year a \<or>
      (year a = year b \<and> (month b < month a \<or> (month a = month b \<and> day b < day a))))"

definition is_leap :: "int \<Rightarrow> bool" where
  "is_leap y = (y mod 4 = 0 \<and> (y mod 100 \<noteq> 0 \<or> y mod 400 = 0))"

definition days_before_year :: "int \<Rightarrow> int" where
  "days_before_year y = (y - 1) * 365 + (y - 1) div 4 - (y - 1) div 100 + (y - 1) div 400"

definition DAYS_IN_MONTH :: "int list" where
  "DAYS_IN_MONTH = [31, 28, 31, 30, 31, 30, 31, 31, 30, 31, 30, 31]"

definition days_before_month :: "int \<Rightarrow> int \<Rightarrow> int" where
  "days_before_month y m =
     sum_list (take (nat (m - 1)) DAYS_IN_MONTH) + (if 2 < m \<and> is_leap y then 1 else 0)"

definition toordinal :: "date \<Rightarrow> int" where
  "toordinal d = days_before_year (year d) + days_before_month (year d) (month d) + day d"

text \<open>\<^verbatim>\<open>(a - b).days\<close>.\<close>

definition days_between :: "date \<Rightarrow> date \<Rightarrow> int" where
  "days_between a b = toordinal a - toordinal b"

subsection \<open>Constants\<close>

definition FISCAL_YEAR_START :: date where
  "FISCAL_YEAR_START = Date 2026 7 1"

definition FISCAL_YEAR_END :: date where
  "FISCAL_YEAR_END = Date 2027 6 30"

definition TOTAL_FY_DAYS :: int where
  "TOTAL_FY_DAYS = days_between FISCAL_YEAR_END FISCAL_YEAR_START + 1"

definition BASE_SHIFT_EQUIVALENTS :: int where
  "BASE_SHIFT_EQUIVALENTS = 183"

definition STRENGTH_OF_SCHEDULE_BASE :: int where
  "STRENGTH_OF_SCHEDULE_BASE = 198500"

definition EXPERIENCE_ADJUSTMENT_PER_YEAR :: int where
  "EXPERIENCE_ADJUSTMENT_PER_YEAR = 2000"

definition A_BASE_FOR_B_CALC :: int where
  "A_BASE_FOR_B_CALC = 105000"

definition OTHER_DEPT_RATE :: int where
  "OTHER_DEPT_RATE = 240000"

definition ADDICTION_BOARD_BONUS :: int where
  "ADDICTION_BOARD_BONUS = 20000"

definition A_COMPONENT_BY_RANK :: "(string \<times> int) list" where
  "A_COMPONENT_BY_RANK =
     [(''Assistant Professor'', 105000),
      (''Associate Professor'', 120750),
      (''Professor'', 136500),
      (''TFP NFP Physician'', 105000)]"

record shift_config =
  ratio :: rat
  sos :: rat

definition SHIFT_TYPES :: "(string \<times> shift_config) list" where
  "SHIFT_TYPES =
     [(''Teaching'', \<lparr>ratio = 1, sos = 1\<rparr>),
      (''Direct Care Days'', \<lparr>ratio = 1, sos = 5 / 4\<rparr>),
      (''Women & Families Days'', \<lparr>ratio = 6 / 5, sos = 5 / 4\<rparr>),
      (''Episcopal'', \<lparr>ratio = 3 / 4, sos = 21 / 20\<rparr>),
      (''Clinic'', \<lparr>ratio = 9 / 10, sos = 9 / 8\<rparr>),
      (''Addiction'', \<lparr>ratio = 1, sos = 1\<rparr>)]"

definition NIGHT_STANDARD_THRESHOLD :: int where
  "NIGHT_STANDARD_THRESHOLD = 21"

definition NIGHT_STANDARD_SOS :: rat where
  "NIGHT_STANDARD_SOS = 3 / 2"

definition NIGHT_PREMIUM_SOS :: rat where
  "NIGHT_PREMIUM_SOS = 7 / 4"

subsection \<open>The result record\<close>

text \<open>One row of \<^verbatim>\<open>shift_breakdown\<close>: the dict with keys "days", "shift_eq", "sos_value".\<close>

record shift_row =
  days :: int
  shift_eq :: rat
  sos_value :: rat

record CalculationResult =
  time_fraction :: rat
  hm_fte :: rat
  hospitalist_fte :: rat
  clinical_fte :: rat
  shift_equivalents :: int
  addiction_fte :: rat
  shift_breakdown :: "(string \<times> shift_row) list"
  total_sos_value :: rat
  sos_multiplier :: rat
  a_component :: int
  a_fte_adjusted :: rat
  b_base :: int
  b_adjusted :: rat
  experience_years :: int
  experience_adjustment :: int
  b_with_experience :: rat
  b_fte_adjusted :: int
  other_dept_comp :: rat
  addiction_board_bonus :: rat
  other_stipend :: rat
  total_compensation :: rat

subsection \<open>The shift loop (lines 116-135)\<close>

text \<open>
  The loop state is (\<^verbatim>\<open>shift_breakdown\<close>, \<^verbatim>\<open>total_sos_value\<close>, \<^verbatim>\<open>total_shift_eq\<close>).
  \<open>shift_step\<close> is one pass through the body of
  \<^verbatim>\<open>for shift_type, days in shift_days.items()\<close>; \<open>shift_loop\<close> runs it over the items in
  order.
\<close>

type_synonym shift_state = "(string \<times> shift_row) list \<times> rat \<times> rat"

definition shift_step :: "string \<times> int \<Rightarrow> shift_state \<Rightarrow> shift_state" where
  "shift_step item acc =
     (let (shift_type, days) = item;
          (shift_breakdown, total_sos_value, total_shift_eq) = acc
      in if shift_type = ''Nights'' \<or> shift_type = ''Addiction'' then acc
         else (case map_of SHIFT_TYPES shift_type of
                 None \<Rightarrow> acc
               | Some config \<Rightarrow>
                   let shift_eq = of_int days * ratio config;
                       sos_value = shift_eq * sos config
                   in (AList.update shift_type
                         \<lparr>days = days, shift_eq = shift_eq, sos_value = sos_value\<rparr>
                         shift_breakdown,
                       total_sos_value + sos_value,
                       total_shift_eq + shift_eq)))"

fun shift_loop :: "(string \<times> int) list \<Rightarrow> shift_state \<Rightarrow> shift_state" where
  "shift_loop [] acc = acc"
| "shift_loop (item # rest) acc = shift_loop rest (shift_step item acc)"

subsection \<open>Tiered nights (lines 137-155)\<close>

definition process_nights :: "(string \<times> int) list \<Rightarrow> shift_state \<Rightarrow> shift_state" where
  "process_nights shift_days acc =
     (let (shift_breakdown, total_sos_value, total_shift_eq) = acc;
          night_days = dict_get shift_days ''Nights'' 0
      in if 0 < night_days then
           let standard_nights = min night_days NIGHT_STANDARD_THRESHOLD;
               premium_nights = max 0 (night_days - NIGHT_STANDARD_THRESHOLD);
               standard_sos = of_int standard_nights * NIGHT_STANDARD_SOS;
               premium_sos = of_int premium_nights * NIGHT_PREMIUM_SOS;
               shift_breakdown = AList.update ''Standard Nights (first 21)''
                 \<lparr>days = standard_nights, shift_eq = of_int standard_nights,
                  sos_value = standard_sos\<rparr> shift_breakdown;
               shift_breakdown = AList.update ''Premium Nights (after 21)''
                 \<lparr>days = premium_nights, shift_eq = of_int premium_nights,
                  sos_value = premium_sos\<rparr> shift_breakdown
           in (shift_breakdown,
               total_sos_value + (standard_sos + premium_sos),
               total_shift_eq + of_int night_days)
         else acc)"

subsection \<open>\<^verbatim>\<open>calculate_compensation\<close> (lines 77-209)\<close>

definition calculate_compensation ::
  "date \<Rightarrow> int \<Rightarrow> rat \<Rightarrow> rat \<Rightarrow> rat \<Rightarrow> string \<Rightarrow> (string \<times> int) list \<Rightarrow> int \<Rightarrow> bool \<Rightarrow> rat
   \<Rightarrow> error + CalculationResult" where
  "calculate_compensation =
     (\<lambda>start_date leave_days status_fte non_clinical_fte other_dept_fte
        academic_rank shift_days graduation_year addiction_board_certified other_stipend.
      let days_in_fy =
            (if date_le start_date FISCAL_YEAR_START then TOTAL_FY_DAYS
             else if date_gt start_date FISCAL_YEAR_END then 0
             else days_between FISCAL_YEAR_END start_date + 1);
          effective_days = max 0 (days_in_fy - leave_days)
      in
      bind_result (truediv (of_int effective_days) (of_int TOTAL_FY_DAYS)) (\<lambda>time_fraction.
      let addiction_shifts = dict_get shift_days ''Addiction'' 0
      in
      bind_result (truediv (of_int addiction_shifts) (of_int BASE_SHIFT_EQUIVALENTS))
        (\<lambda>addiction_fte.
      let hm_fte = max 0 (status_fte - other_dept_fte - addiction_fte);
          actual_hm_fte = max 0 (status_fte - non_clinical_fte - other_dept_fte - addiction_fte);
          hospitalist_fte = actual_hm_fte;
          clinical_fte = actual_hm_fte * time_fraction;
          shift_equivalents = py_int (clinical_fte * of_int BASE_SHIFT_EQUIVALENTS + 1 / 2);
          (shift_breakdown, total_sos_value, total_shift_eq) =
            process_nights shift_days (shift_loop shift_days ([], 0, 0))
      in
      bind_result
        (if 0 < shift_equivalents then truediv total_sos_value (of_int shift_equivalents)
         else Inr 1)
        (\<lambda>sos_multiplier.
      let a_component = dict_get A_COMPONENT_BY_RANK academic_rank 105000;
          a_fte_adjusted = of_int a_component * status_fte;
          b_base = STRENGTH_OF_SCHEDULE_BASE;
          b_adjusted = of_int b_base * sos_multiplier;
          current_year = year FISCAL_YEAR_START;
          experience_years = max 0 (current_year - graduation_year);
          experience_adjustment = experience_years * EXPERIENCE_ADJUSTMENT_PER_YEAR;
          b_with_experience = b_adjusted + of_int experience_adjustment
      in
      bind_result
        (truediv (b_with_experience * hm_fte - of_int A_BASE_FOR_B_CALC * status_fte) 100)
        (\<lambda>b_hundreds.
      let b_fte_adjusted = py_round b_hundreds * 100;
          other_dept_comp =
            (addiction_fte + other_dept_fte) * of_int OTHER_DEPT_RATE * time_fraction;
          addiction_board_bonus_val =
            (if addiction_board_certified
             then of_int ADDICTION_BOARD_BONUS * status_fte * time_fraction else 0);
          total_compensation =
            a_fte_adjusted + of_int b_fte_adjusted + other_dept_comp
              + addiction_board_bonus_val + other_stipend
      in
      Inr \<lparr>time_fraction = time_fraction,
           hm_fte = hm_fte,
           hospitalist_fte = hospitalist_fte,
           clinical_fte = clinical_fte,
           shift_equivalents = shift_equivalents,
           addiction_fte = addiction_fte,
           shift_breakdown = shift_breakdown,
           total_sos_value = total_sos_value,
           sos_multiplier = sos_multiplier,
           a_component = a_component,
           a_fte_adjusted = a_fte_adjusted,
           b_base = b_base,
           b_adjusted = b_adjusted,
           experience_years = experience_years,
           experience_adjustment = experience_adjustment,
           b_with_experience = b_with_experience,
           b_fte_adjusted = b_fte_adjusted,
           other_dept_comp = other_dept_comp,
           addiction_board_bonus = addiction_board_bonus_val,
           other_stipend = other_stipend,
           total_compensation = total_compensation\<rparr>)))))"

subsection \<open>Sum of the rows' SoS values\<close>

text \<open>What a reader of the result computes from \<^verbatim>\<open>shift_breakdown\<close>: the sum of the
  \<^verbatim>\<open>sos_value\<close> entries over all rows, in row order.\<close>

definition rows_sos :: "(string \<times> shift_row) list \<Rightarrow> rat" where
  "rows_sos rows = sum_list (map (\<lambda>row. sos_value (snd row)) rows)"

subsection \<open>The specification's rounding rule for the B component\<close>

text \<open>
  The specification words the rounding of \<^verbatim>\<open>b_fte_adjusted\<close> as "nearest multiple of 100,
  an exact half going away from zero". This function is written from those words, not
  from the code, and is used only to compare the two.
\<close>

definition spec_round_to_nearest_100 :: "rat \<Rightarrow> int" where
  "spec_round_to_nearest_100 v =
     (if 0 \<le> v then floor (v / 100 + 1 / 2) * 100
      else - (floor (- v / 100 + 1 / 2) * 100))"

subsection \<open>The specification's rounding rule for shift equivalents\<close>

text \<open>
  The specification words \<^verbatim>\<open>shift_equivalents\<close> as \<open>clinical_fte * 183\<close> "rounded to an
  integer with exact halves rounded up". This function is written from those words, in
  exact arithmetic, and is used only to compare with the code.
\<close>

definition spec_round_half_up :: "rat \<Rightarrow> int" where
  "spec_round_half_up x = floor (x + 1 / 2)"

subsection \<open>Binary64 rounding\<close>

text \<open>
  IEEE 754 binary64 with round to nearest, ties to even, the arithmetic of a Python
  \<^verbatim>\<open>float\<close>. For \<open>x \<noteq> 0\<close> with \<open>2^e \<le> |x| < 2^(e+1)\<close> the doubles around \<open>x\<close> are the
  multiples of \<open>2^(e-52)\<close> (of \<open>2^-1074\<close> below \<open>2^-1022\<close>, the subnormal range), and
  \<open>fl64 x\<close> is the multiple nearest to \<open>x\<close>, the even one on a tie. Overflow, which
  begins at \<open>2^1024\<close>, is not modelled.
\<close>

text \<open>\<open>pow2 k\<close> is \<open>2^k\<close> for an integer \<open>k\<close> of either sign.\<close>

definition pow2 :: "int \<Rightarrow> rat" where
  "pow2 k = (if 0 \<le> k then 2 ^ nat k else 1 / 2 ^ nat (- k))"

text \<open>\<open>exponent2 x\<close> is the binary exponent of \<open>x \<noteq> 0\<close>: the \<open>e\<close> with
  \<open>2^e \<le> |x| < 2^(e+1)\<close> (lemma \<open>exponent2_bounds\<close>).\<close>

definition exponent2 :: "rat \<Rightarrow> int" where
  "exponent2 x =
     (let a = \<bar>x\<bar>
      in if 1 \<le> a then bitlen (floor a) - 1
         else - bitlen (ceiling (1 / a) - 1))"

definition fl64 :: "rat \<Rightarrow> rat" where
  "fl64 x =
     (if x = 0 then 0
      else let e = max (exponent2 x) (- 1022);
               ulp = pow2 (e - 52)
           in of_int (py_round (x / ulp)) * ulp)"

subsection \<open>The function in rounded arithmetic\<close>

text \<open>
  The same function with the rounding of every float operation written out, for a rounding
  function \<open>fl\<close>: a float operation of the source is the exact operation followed by
  \<open>fl\<close>, a decimal literal of the source (\<^verbatim>\<open>1.2\<close>, \<^verbatim>\<open>1.25\<close>, \<^verbatim>\<open>0.5\<close>, ...) is \<open>fl\<close> of its
  decimal value, and \<^verbatim>\<open>int / int\<close> is \<open>fl\<close> of the exact quotient. Operations on ints alone
  are exact. An int operand of a float operation converts to a float exactly, as Python
  does for ints below \<open>2^53\<close>; larger ints are outside this model. The float inputs
  (\<^verbatim>\<open>status_fte\<close>, ...) are the values of the floats passed in.

  With \<open>fl\<close> the identity this is \<open>calculate_compensation\<close>
  (lemma \<open>calculate_compensation_fl_exact\<close>); with \<open>fl64\<close> it is the program's arithmetic.
\<close>

definition truediv_fl :: "(rat \<Rightarrow> rat) \<Rightarrow> rat \<Rightarrow> rat \<Rightarrow> error + rat" where
  "truediv_fl fl a b = (if b = 0 then Inl ZeroDivisionError else Inr (fl (a / b)))"

definition shift_step_fl :: "(rat \<Rightarrow> rat) \<Rightarrow> string \<times> int \<Rightarrow> shift_state \<Rightarrow> shift_state" where
  "shift_step_fl fl item acc =
     (let (shift_type, days) = item;
          (shift_breakdown, total_sos_value, total_shift_eq) = acc
      in if shift_type = ''Nights'' \<or> shift_type = ''Addiction'' then acc
         else (case map_of SHIFT_TYPES shift_type of
                 None \<Rightarrow> acc
               | Some config \<Rightarrow>
                   let shift_eq = fl (of_int days * fl (ratio config));
                       sos_value = fl (shift_eq * fl (sos config))
                   in (AList.update shift_type
                         \<lparr>days = days, shift_eq = shift_eq, sos_value = sos_value\<rparr>
                         shift_breakdown,
                       fl (total_sos_value + sos_value),
                       fl (total_shift_eq + shift_eq))))"

fun shift_loop_fl :: "(rat \<Rightarrow> rat) \<Rightarrow> (string \<times> int) list \<Rightarrow> shift_state \<Rightarrow> shift_state" where
  "shift_loop_fl fl [] acc = acc"
| "shift_loop_fl fl (item # rest) acc = shift_loop_fl fl rest (shift_step_fl fl item acc)"

definition process_nights_fl :: "(rat \<Rightarrow> rat) \<Rightarrow> (string \<times> int) list \<Rightarrow> shift_state \<Rightarrow> shift_state" where
  "process_nights_fl fl shift_days acc =
     (let (shift_breakdown, total_sos_value, total_shift_eq) = acc;
          night_days = dict_get shift_days ''Nights'' 0
      in if 0 < night_days then
           let standard_nights = min night_days NIGHT_STANDARD_THRESHOLD;
               premium_nights = max 0 (night_days - NIGHT_STANDARD_THRESHOLD);
               standard_sos = fl (of_int standard_nights * fl NIGHT_STANDARD_SOS);
               premium_sos = fl (of_int premium_nights * fl NIGHT_PREMIUM_SOS);
               shift_breakdown = AList.update ''Standard Nights (first 21)''
                 \<lparr>days = standard_nights, shift_eq = of_int standard_nights,
                  sos_value = standard_sos\<rparr> shift_breakdown;
               shift_breakdown = AList.update ''Premium Nights (after 21)''
                 \<lparr>days = premium_nights, shift_eq = of_int premium_nights,
                  sos_value = premium_sos\<rparr> shift_breakdown
           in (shift_breakdown,
               fl (total_sos_value + fl (standard_sos + premium_sos)),
               fl (total_shift_eq + of_int night_days))
         else acc)"

definition calculate_compensation_fl ::
  "(rat \<Rightarrow> rat) \<Rightarrow> date \<Rightarrow> int \<Rightarrow> rat \<Rightarrow> rat \<Rightarrow> rat \<Rightarrow> string \<Rightarrow> (string \<times> int) list \<Rightarrow> int \<Rightarrow> bool
   \<Rightarrow> rat \<Rightarrow> error + CalculationResult" where
  "calculate_compensation_fl fl =
     (\<lambda>start_date leave_days status_fte non_clinical_fte other_dept_fte
        academic_rank shift_days graduation_year addiction_board_certified other_stipend.
      let days_in_fy =
            (if date_le start_date FISCAL_YEAR_START then TOTAL_FY_DAYS
             else if date_gt start_date FISCAL_YEAR_END then 0
             else days_between FISCAL_YEAR_END start_date + 1);
          effective_days = max 0 (days_in_fy - leave_days)
      in
      bind_result (truediv_fl fl (of_int effective_days) (of_int TOTAL_FY_DAYS))
        (\<lambda>time_fraction.
      let addiction_shifts = dict_get shift_days ''Addiction'' 0
      in
      bind_result (truediv_fl fl (of_int addiction_shifts) (of_int BASE_SHIFT_EQUIVALENTS))
        (\<lambda>addiction_fte.
      let hm_fte = max 0 (fl (fl (status_fte - other_dept_fte) - addiction_fte));
          actual_hm_fte =
            max 0 (fl (fl (fl (status_fte - non_clinical_fte) - other_dept_fte) - addiction_fte));
          hospitalist_fte = actual_hm_fte;
          clinical_fte = fl (actual_hm_fte * time_fraction);
          shift_equivalents =
            py_int (fl (fl (clinical_fte * of_int BASE_SHIFT_EQUIVALENTS) + fl (1 / 2)));
          (shift_breakdown, total_sos_value, total_shift_eq) =
            process_nights_fl fl shift_days (shift_loop_fl fl shift_days ([], 0, 0))
      in
      bind_result
        (if 0 < shift_equivalents
         then truediv_fl fl total_sos_value (of_int shift_equivalents)
         else Inr 1)
        (\<lambda>sos_multiplier.
      let a_component = dict_get A_COMPONENT_BY_RANK academic_rank 105000;
          a_fte_adjusted = fl (of_int a_component * status_fte);
          b_base = STRENGTH_OF_SCHEDULE_BASE;
          b_adjusted = fl (of_int b_base * sos_multiplier);
          current_year = year FISCAL_YEAR_START;
          experience_years = max 0 (current_year - graduation_year);
          experience_adjustment = experience_years * EXPERIENCE_ADJUSTMENT_PER_YEAR;
          b_with_experience = fl (b_adjusted + of_int experience_adjustment)
      in
      bind_result
        (truediv_fl fl
           (fl (fl (b_with_experience * hm_fte)
                - fl (of_int A_BASE_FOR_B_CALC * status_fte)))
           100)
        (\<lambda>b_hundreds.
      let b_fte_adjusted = py_round b_hundreds * 100;
          other_dept_comp =
            fl (fl (fl (addiction_fte + other_dept_fte) * of_int OTHER_DEPT_RATE)
                * time_fraction);
          addiction_board_bonus_val =
            (if addiction_board_certified
             then fl (fl (of_int ADDICTION_BOARD_BONUS * status_fte) * time_fraction)
             else 0);
          total_compensation =
            fl (fl (fl (fl (a_fte_adjusted + of_int b_fte_adjusted) + other_dept_comp)
                    + addiction_board_bonus_val) + other_stipend)
      in
      Inr \<lparr>time_fraction = time_fraction,
           hm_fte = hm_fte,
           hospitalist_fte = hospitalist_fte,
           clinical_fte = clinical_fte,
           shift_equivalents = shift_equivalents,
           addiction_fte = addiction_fte,
           shift_breakdown = shift_breakdown,
           total_sos_value = total_sos_value,
           sos_multiplier = sos_multiplier,
           a_component = a_component,
           a_fte_adjusted = a_fte_adjusted,
           b_base = b_base,
           b_adjusted = b_adjusted,
           experience_years = experience_years,
           experience_adjustment = experience_adjustment,
           b_with_experience = b_with_experience,
           b_fte_adjusted = b_fte_adjusted,
           other_dept_comp = other_dept_comp,
           addiction_board_bonus = addiction_board_bonus_val,
           other_stipend = other_stipend,
           total_compensation = total_compensation\<rparr>)))))"

text \<open>The sum of the rows' \<^verbatim>\<open>sos_value\<close> entries taken in row order in rounded arithmetic,
  starting from 0, as \<^verbatim>\<open>sum(row["sos_value"] for row in shift_breakdown.values())\<close>
  computes it.\<close>

definition rows_run_sum :: "(rat \<Rightarrow> rat) \<Rightarrow> (string \<times> shift_row) list \<Rightarrow> rat" where
  "rows_run_sum fl rows = foldl (\<lambda>acc row. fl (acc + sos_value (snd row))) 0 rows"

section \<open>Basic facts\<close>

lemma total_fy_days: "TOTAL_FY_DAYS = 365"
  by (simp add: TOTAL_FY_DAYS_def days_between_def toordinal_def FISCAL_YEAR_END_def
      FISCAL_YEAR_START_def days_before_year_def days_before_month_def DAYS_IN_MONTH_def
      is_leap_def)

lemma truediv_nonzero: "b \<noteq> 0 \<Longrightarrow> truediv a b = Inr (a / b)"
  by (simp add: truediv_def)

lemma truediv_of_int_pos: "0 < n \<Longrightarrow> truediv a (of_int n) = Inr (a / of_int n)"
  by (simp add: truediv_def)

lemma bind_result_Inr: "bind_result (Inr x) f = f x"
  by (simp add: bind_result_def)

lemma py_int_nonneg: "0 \<le> x \<Longrightarrow> py_int x = floor x"
  by (simp add: py_int_def)

lemmas calc_simps =
  calculate_compensation_def Let_def total_fy_days truediv_nonzero bind_result_Inr
  BASE_SHIFT_EQUIVALENTS_def case_prod_beta

lemma map_of_Some_key: "map_of al k = Some v \<Longrightarrow> k \<in> fst ` set al"
  by (metis map_of_SomeD fst_conv image_eqI)

lemma dict_get_nonneg:
  assumes "list_all (\<lambda>(k, d). 0 \<le> d) shift_days"
  shows "(0::int) \<le> dict_get shift_days key 0"
proof (cases "map_of shift_days key")
  case None
  then show ?thesis by (simp add: dict_get_def)
next
  case (Some d)
  then have "(key, d) \<in> set shift_days" by (rule map_of_SomeD)
  with assms have "0 \<le> d" by (auto simp: list_all_iff)
  with Some show ?thesis by (simp add: dict_get_def)
qed

lemma dict_get_zero:
  assumes "list_all (\<lambda>(k, d). d = 0) shift_days"
  shows "dict_get shift_days key 0 = (0::int)"
proof (cases "map_of shift_days key")
  case None
  then show ?thesis by (simp add: dict_get_def)
next
  case (Some d)
  then have "(key, d) \<in> set shift_days" by (rule map_of_SomeD)
  with assms have "d = 0" by (auto simp: list_all_iff)
  with Some show ?thesis by (simp add: dict_get_def)
qed

lemma dict_get_extra_key:
  "key \<noteq> k \<Longrightarrow> dict_get (xs @ (k, d) # ys) key dflt = dict_get (xs @ ys) key dflt"
  by (simp add: dict_get_def map_add_def split: option.splits)

lemma update_absent: "k \<notin> fst ` set al \<Longrightarrow> AList.update k v al = al @ [(k, v)]"
  by (induction al) auto

section \<open>The call returns, field by field\<close>

text \<open>
  No division of the function can fail: the divisors are 365, 183, 100 and a
  \<^verbatim>\<open>shift_equivalents\<close> that is only used when positive. So the call returns a result for
  every input, and each field of the result is the expression the source assigns to it.
\<close>

lemma calculate_compensation_returns:
  "\<exists>r. calculate_compensation start_date leave_days status_fte non_clinical_fte other_dept_fte
          academic_rank shift_days graduation_year addiction_board_certified stipend = Inr r \<and>
     addiction_fte r = of_int (dict_get shift_days ''Addiction'' 0) / 183 \<and>
     hm_fte r = max 0 (status_fte - other_dept_fte - addiction_fte r) \<and>
     hospitalist_fte r = max 0 (status_fte - non_clinical_fte - other_dept_fte - addiction_fte r) \<and>
     clinical_fte r = hospitalist_fte r * time_fraction r \<and>
     0 \<le> time_fraction r \<and>
     shift_equivalents r = py_int (clinical_fte r * 183 + 1 / 2) \<and>
     shift_breakdown r = fst (process_nights shift_days (shift_loop shift_days ([], 0, 0))) \<and>
     total_sos_value r = fst (snd (process_nights shift_days (shift_loop shift_days ([], 0, 0)))) \<and>
     sos_multiplier r =
       (if 0 < shift_equivalents r then total_sos_value r / of_int (shift_equivalents r) else 1) \<and>
     a_component r = dict_get A_COMPONENT_BY_RANK academic_rank 105000 \<and>
     a_fte_adjusted r = of_int (a_component r) * status_fte \<and>
     b_adjusted r = 198500 * sos_multiplier r \<and>
     experience_years r = max 0 (2026 - graduation_year) \<and>
     experience_adjustment r = experience_years r * 2000 \<and>
     b_with_experience r = b_adjusted r + of_int (experience_adjustment r) \<and>
     b_fte_adjusted r =
       py_round ((b_with_experience r * hm_fte r - 105000 * status_fte) / 100) * 100 \<and>
     other_dept_comp r = (addiction_fte r + other_dept_fte) * 240000 * time_fraction r \<and>
     addiction_board_bonus r =
       (if addiction_board_certified then 20000 * status_fte * time_fraction r else 0) \<and>
     other_stipend r = stipend \<and>
     total_compensation r =
       a_fte_adjusted r + of_int (b_fte_adjusted r) + other_dept_comp r
         + addiction_board_bonus r + stipend"
  by (simp add: calc_simps truediv_of_int_pos STRENGTH_OF_SCHEDULE_BASE_def
      EXPERIENCE_ADJUSTMENT_PER_YEAR_def A_BASE_FOR_B_CALC_def OTHER_DEPT_RATE_def
      ADDICTION_BOARD_BONUS_def FISCAL_YEAR_START_def)

section \<open>The shift loop\<close>

lemma shift_step_keys:
  "fst ` set (fst (shift_step item acc)) \<subseteq> fst ` set (fst acc) \<union> ({fst item} \<inter> fst ` set SHIFT_TYPES)"
  by (cases item; cases acc)
     (auto simp: shift_step_def Let_def dom_update split: option.splits dest: map_of_Some_key)

lemma shift_loop_keys:
  "fst ` set (fst (shift_loop xs acc)) \<subseteq> fst ` set (fst acc) \<union> (fst ` set xs \<inter> fst ` set SHIFT_TYPES)"
proof (induction xs arbitrary: acc)
  case Nil
  then show ?case by simp
next
  case (Cons item rest)
  have "fst ` set (fst (shift_loop rest (shift_step item acc)))
          \<subseteq> fst ` set (fst (shift_step item acc)) \<union> (fst ` set rest \<inter> fst ` set SHIFT_TYPES)"
    by (rule Cons.IH)
  also have "\<dots> \<subseteq> (fst ` set (fst acc) \<union> ({fst item} \<inter> fst ` set SHIFT_TYPES))
                   \<union> (fst ` set rest \<inter> fst ` set SHIFT_TYPES)"
    using shift_step_keys [of item acc] by blast
  finally show ?case by auto
qed

lemma night_rows_not_in_catalog:
  "''Standard Nights (first 21)'' \<notin> fst ` set SHIFT_TYPES"
  "''Premium Nights (after 21)'' \<notin> fst ` set SHIFT_TYPES"
  by (simp_all add: SHIFT_TYPES_def)

lemma shift_loop_no_night_rows:
  "''Standard Nights (first 21)'' \<notin> fst ` set (fst (shift_loop xs ([], 0, 0)))"
  "''Premium Nights (after 21)'' \<notin> fst ` set (fst (shift_loop xs ([], 0, 0)))"
  using shift_loop_keys [of xs "([], 0, 0)"] night_rows_not_in_catalog by auto

lemma rows_sos_update_absent:
  "k \<notin> fst ` set al \<Longrightarrow> rows_sos (AList.update k v al) = rows_sos al + sos_value v"
  by (simp add: update_absent rows_sos_def)

lemma shift_step_sum:
  assumes "fst item \<notin> fst ` set (fst acc)" and "rows_sos (fst acc) = fst (snd acc)"
  shows "rows_sos (fst (shift_step item acc)) = fst (snd (shift_step item acc))"
  using assms
  by (cases item; cases acc)
     (auto simp: shift_step_def Let_def rows_sos_update_absent split: option.splits)

lemma shift_loop_sum:
  assumes "distinct (map fst xs)"
    and "fst ` set (fst acc) \<inter> fst ` set xs = {}"
    and "rows_sos (fst acc) = fst (snd acc)"
  shows "rows_sos (fst (shift_loop xs acc)) = fst (snd (shift_loop xs acc))"
  using assms
proof (induction xs arbitrary: acc)
  case Nil
  then show ?case by simp
next
  case (Cons item rest)
  from Cons.prems(2) have notin: "fst item \<notin> fst ` set (fst acc)" by auto
  from Cons.prems(2) have rest_disj: "fst ` set (fst acc) \<inter> fst ` set rest = {}" by auto
  from Cons.prems(1) have fresh: "fst item \<notin> fst ` set rest" by auto
  have step_sum: "rows_sos (fst (shift_step item acc)) = fst (snd (shift_step item acc))"
    using notin Cons.prems(3) by (rule shift_step_sum)
  have sub: "fst ` set (fst (shift_step item acc)) \<subseteq> insert (fst item) (fst ` set (fst acc))"
    using shift_step_keys [of item acc] by (rule subset_trans) blast
  have disj: "fst ` set (fst (shift_step item acc)) \<inter> fst ` set rest = {}"
  proof -
    have "fst ` set (fst (shift_step item acc)) \<inter> fst ` set rest
            \<subseteq> insert (fst item) (fst ` set (fst acc)) \<inter> fst ` set rest"
      using sub by (rule Int_mono) simp
    also have "\<dots> = {}" using fresh rest_disj by simp
    finally show ?thesis by simp
  qed
  have "distinct (map fst rest)" using Cons.prems(1) by simp
  from Cons.IH [OF this disj step_sum] show ?case by simp
qed

lemma shift_step_zero: "snd item = 0 \<Longrightarrow> snd (shift_step item acc) = snd acc"
  by (cases item; cases acc) (simp add: shift_step_def Let_def split: option.splits)

lemma shift_loop_zero:
  "list_all (\<lambda>(k, d). d = 0) xs \<Longrightarrow> snd (shift_loop xs acc) = snd acc"
proof (induction xs arbitrary: acc)
  case Nil
  then show ?case by simp
next
  case (Cons item rest)
  from Cons.prems have "snd item = 0" by (cases item) simp
  moreover from Cons.prems have "list_all (\<lambda>(k, d). d = 0) rest" by simp
  ultimately show ?case using Cons.IH [of "shift_step item acc"] by (simp add: shift_step_zero)
qed

lemma shift_loop_append: "shift_loop (xs @ ys) acc = shift_loop ys (shift_loop xs acc)"
  by (induction xs arbitrary: acc) simp_all

lemma shift_step_unknown:
  assumes "k \<notin> set (map fst SHIFT_TYPES)"
  shows "shift_step (k, d) acc = acc"
proof -
  from assms have "map_of SHIFT_TYPES k = None"
    by (simp add: map_of_eq_None_iff)
  then show ?thesis
    by (cases acc) (simp add: shift_step_def)
qed

lemma shift_loop_extra_key:
  "k \<notin> set (map fst SHIFT_TYPES) \<Longrightarrow> shift_loop (xs @ (k, d) # ys) acc = shift_loop (xs @ ys) acc"
  by (simp add: shift_loop_append shift_step_unknown)

section \<open>The night rows\<close>

lemma process_nights_pos:
  assumes "''Standard Nights (first 21)'' \<notin> fst ` set bd"
    and "''Premium Nights (after 21)'' \<notin> fst ` set bd"
    and "0 < dict_get shift_days ''Nights'' 0"
  shows "process_nights shift_days (bd, s, e) =
     (bd @ [(''Standard Nights (first 21)'',
             \<lparr>days = min (dict_get shift_days ''Nights'' 0) 21,
              shift_eq = of_int (min (dict_get shift_days ''Nights'' 0) 21),
              sos_value = of_int (min (dict_get shift_days ''Nights'' 0) 21) * (3 / 2)\<rparr>),
            (''Premium Nights (after 21)'',
             \<lparr>days = max 0 (dict_get shift_days ''Nights'' 0 - 21),
              shift_eq = of_int (max 0 (dict_get shift_days ''Nights'' 0 - 21)),
              sos_value = of_int (max 0 (dict_get shift_days ''Nights'' 0 - 21)) * (7 / 4)\<rparr>)],
      s + (of_int (min (dict_get shift_days ''Nights'' 0) 21) * (3 / 2)
           + of_int (max 0 (dict_get shift_days ''Nights'' 0 - 21)) * (7 / 4)),
      e + of_int (dict_get shift_days ''Nights'' 0))"
proof -
  have prem: "''Premium Nights (after 21)'' \<notin> fst ` set (bd @ [(''Standard Nights (first 21)'', v)])" for v
    using assms(2) by simp
  show ?thesis
    using assms(3)
    by (simp add: process_nights_def Let_def update_absent [OF assms(1)] update_absent [OF prem]
        NIGHT_STANDARD_THRESHOLD_def NIGHT_STANDARD_SOS_def NIGHT_PREMIUM_SOS_def)
qed

lemma process_nights_nonpos:
  "\<not> 0 < dict_get shift_days ''Nights'' 0 \<Longrightarrow> process_nights shift_days acc = acc"
  by (cases acc) (simp add: process_nights_def)

lemma process_nights_zero:
  "list_all (\<lambda>(k, d). d = 0) shift_days \<Longrightarrow> process_nights shift_days acc = acc"
  by (cases acc) (simp add: process_nights_def dict_get_zero)

lemma process_nights_sum:
  assumes "''Standard Nights (first 21)'' \<notin> fst ` set (fst acc)"
    and "''Premium Nights (after 21)'' \<notin> fst ` set (fst acc)"
    and "rows_sos (fst acc) = fst (snd acc)"
  shows "rows_sos (fst (process_nights shift_days acc)) = fst (snd (process_nights shift_days acc))"
proof (cases "0 < dict_get shift_days ''Nights'' 0")
  case True
  obtain bd s e where acc: "acc = (bd, s, e)" by (cases acc)
  from assms acc process_nights_pos [of bd shift_days s e] True
  show ?thesis by (simp add: rows_sos_def)
next
  case False
  then show ?thesis using assms(3) by (simp add: process_nights_nonpos)
qed

lemma process_nights_extra_key:
  "k \<noteq> ''Nights'' \<Longrightarrow> process_nights (xs @ (k, d) # ys) acc = process_nights (xs @ ys) acc"
  by (simp add: process_nights_def dict_get_extra_key)

section \<open>Binary64 rounding: what \<open>fl64\<close> computes\<close>

lemma pow2_pos: "0 < pow2 k"
  by (simp add: pow2_def)

lemma pow2_nonneg_eq: "0 \<le> k \<Longrightarrow> pow2 k = 2 ^ nat k"
  by (simp add: pow2_def)

lemma pow2_neg_eq: "0 \<le> k \<Longrightarrow> pow2 (- k) = 1 / 2 ^ nat k"
  by (cases "k = 0") (simp_all add: pow2_def)

lemma bitlen_bounds_rat:
  assumes "0 < n"
  shows "(2::rat) ^ nat (bitlen n - 1) \<le> of_int n" and "of_int n < (2::rat) ^ nat (bitlen n)"
proof -
  from bitlen_bounds [OF assms]
  have l: "2 ^ nat (bitlen n - 1) \<le> n" and u: "n < 2 ^ nat (bitlen n)" by simp_all
  from l have "(of_int (2 ^ nat (bitlen n - 1)) :: rat) \<le> of_int n"
    by (simp only: of_int_le_iff)
  then show "(2::rat) ^ nat (bitlen n - 1) \<le> of_int n" by simp
  from u have "(of_int n :: rat) < of_int (2 ^ nat (bitlen n))"
    by (simp only: of_int_less_iff)
  then show "of_int n < (2::rat) ^ nat (bitlen n)" by simp
qed

lemma exponent2_bounds:
  assumes "x \<noteq> 0"
  shows "pow2 (exponent2 x) \<le> \<bar>x\<bar> \<and> \<bar>x\<bar> < pow2 (exponent2 x + 1)"
proof (cases "1 \<le> \<bar>x\<bar>")
  case True
  define n where "n = floor \<bar>x\<bar>"
  have npos: "0 < n" using True by (simp add: n_def)
  then have b1: "1 \<le> bitlen n" by (simp add: bitlen_alt_def)
  have e: "exponent2 x = bitlen n - 1" using True by (simp add: exponent2_def n_def)
  have "pow2 (bitlen n - 1) = 2 ^ nat (bitlen n - 1)" using b1 by (simp add: pow2_nonneg_eq)
  also have "\<dots> \<le> of_int n" using npos by (rule bitlen_bounds_rat)
  also have "\<dots> \<le> \<bar>x\<bar>" by (simp add: n_def)
  finally have lower: "pow2 (bitlen n - 1) \<le> \<bar>x\<bar>" .
  have "\<bar>x\<bar> < of_int n + 1" unfolding n_def by linarith
  also have "\<dots> = of_int (n + 1)" by simp
  also have "\<dots> \<le> of_int (2 ^ nat (bitlen n))"
    using bitlen_bounds [OF npos] by (simp only: of_int_le_iff) simp
  also have "\<dots> = pow2 (bitlen n)" using b1 by (simp add: pow2_nonneg_eq)
  finally have upper: "\<bar>x\<bar> < pow2 (bitlen n - 1 + 1)" by simp
  from lower upper e show ?thesis by simp
next
  case False
  define a where "a = \<bar>x\<bar>"
  have apos: "0 < a" and alt: "a < 1" using assms False by (simp_all add: a_def)
  define y where "y = 1 / a"
  have y1: "1 < y" using apos alt by (simp add: y_def)
  define m where "m = ceiling y - 1"
  have mpos: "0 < m" using y1 by (simp add: m_def less_ceiling_iff)
  define k where "k = bitlen m"
  have k1: "1 \<le> k" using mpos by (simp add: k_def bitlen_alt_def)
  have e: "exponent2 x = - k" using False by (simp add: exponent2_def a_def y_def m_def k_def)
  have m_lt: "of_int m < y" unfolding m_def by linarith
  have y_le: "y \<le> of_int m + 1" unfolding m_def by linarith
  have "(2::rat) ^ nat (k - 1) \<le> of_int m" unfolding k_def using mpos by (rule bitlen_bounds_rat)
  from this m_lt have y_gt: "(2::rat) ^ nat (k - 1) < y" by (rule le_less_trans)
  have "of_int m + 1 = (of_int (m + 1) :: rat)" by simp
  also have "\<dots> \<le> of_int (2 ^ nat k)"
    using bitlen_bounds [OF mpos] unfolding k_def by (simp only: of_int_le_iff) simp
  finally have "of_int m + 1 \<le> (2::rat) ^ nat k" by simp
  with y_le have y_le2: "y \<le> 2 ^ nat k" by (rule order_trans)
  have a_eq: "a = 1 / y" using apos by (simp add: y_def)
  have lower: "pow2 (- k) \<le> a"
  proof -
    have "1 / 2 ^ nat k \<le> 1 / y" using y_le2 y1 by (intro divide_left_mono) simp_all
    then show ?thesis using k1 by (simp add: pow2_neg_eq a_eq)
  qed
  have upper: "a < pow2 (- k + 1)"
  proof -
    have ypos: "0 < y" using y1 by simp
    have "1 / y < 1 / 2 ^ nat (k - 1)"
      using y_gt ypos by (intro divide_strict_left_mono mult_pos_pos) simp_all
    moreover have "pow2 (- k + 1) = 1 / 2 ^ nat (k - 1)"
      using k1 pow2_neg_eq [of "k - 1"] by simp
    ultimately show ?thesis by (simp add: a_eq)
  qed
  from lower upper e show ?thesis by (simp add: a_def)
qed

lemma py_round_nearest: "\<bar>of_int (py_round y) - y\<bar> \<le> 1 / 2"
proof -
  have "of_int (floor y) \<le> y" and "y < of_int (floor y) + 1" by linarith+
  then show ?thesis
    by (auto simp: py_round_def Let_def abs_le_iff)
qed

text \<open>\<open>fl64 x\<close> is an integer multiple of the spacing at \<open>x\<close> and lies within half a
  spacing of \<open>x\<close>; on a tie \<open>py_round\<close> takes the even multiple.\<close>

lemma fl64_nearest:
  assumes "x \<noteq> 0"
  shows "fl64 x =
      of_int (py_round (x / pow2 (max (exponent2 x) (- 1022) - 52)))
        * pow2 (max (exponent2 x) (- 1022) - 52)"
    and "\<bar>fl64 x - x\<bar> \<le> pow2 (max (exponent2 x) (- 1022) - 52) / 2"
proof -
  define u where "u = pow2 (max (exponent2 x) (- 1022) - 52)"
  have upos: "0 < u" unfolding u_def by (rule pow2_pos)
  show eq: "fl64 x =
      of_int (py_round (x / pow2 (max (exponent2 x) (- 1022) - 52)))
        * pow2 (max (exponent2 x) (- 1022) - 52)"
    using assms by (simp add: fl64_def Let_def)
  have "fl64 x - x = (of_int (py_round (x / u)) - x / u) * u"
    using upos eq by (simp add: u_def algebra_simps)
  then have "\<bar>fl64 x - x\<bar> = \<bar>of_int (py_round (x / u)) - x / u\<bar> * u"
    using upos by (simp add: abs_mult)
  also have "\<dots> \<le> 1 / 2 * u"
    using py_round_nearest [of "x / u"] upos by (intro mult_right_mono) simp_all
  finally show "\<bar>fl64 x - x\<bar> \<le> pow2 (max (exponent2 x) (- 1022) - 52) / 2"
    by (simp add: u_def)
qed

text \<open>Some doubles: 0.1, 0.1 + 0.2 = 0.30000000000000004, the rounding of \<open>2^53 + 1\<close>
  to even, and a value that is already a double.\<close>

lemma fl64_examples:
  "fl64 (1 / 10) = 3602879701896397 / 36028797018963968"
  "fl64 (fl64 (1 / 10) + fl64 (2 / 10)) = 1351079888211149 / 4503599627370496"
  "fl64 9007199254740993 = 9007199254740992"
  "fl64 (3 / 2) = 3 / 2"
  by code_simp+

section \<open>The function in rounded arithmetic: basic facts\<close>

lemma truediv_fl_nonzero: "b \<noteq> 0 \<Longrightarrow> truediv_fl fl a b = Inr (fl (a / b))"
  by (simp add: truediv_fl_def)

lemma truediv_fl_of_int_pos: "0 < n \<Longrightarrow> truediv_fl fl a (of_int n) = Inr (fl (a / of_int n))"
  by (simp add: truediv_fl_def)

lemma shift_step_fl_exact: "shift_step_fl (\<lambda>x. x) item acc = shift_step item acc"
  by (simp add: shift_step_fl_def shift_step_def)

lemma shift_loop_fl_exact: "shift_loop_fl (\<lambda>x. x) xs acc = shift_loop xs acc"
  by (induction xs arbitrary: acc) (simp_all add: shift_step_fl_exact)

lemma process_nights_fl_exact: "process_nights_fl (\<lambda>x. x) shift_days acc = process_nights shift_days acc"
  by (simp add: process_nights_fl_def process_nights_def)

lemma truediv_fl_exact: "truediv_fl (\<lambda>x. x) a b = truediv a b"
  by (simp add: truediv_fl_def truediv_def)

text \<open>Without rounding, the rounded function is the exact one.\<close>

lemma calculate_compensation_fl_exact:
  "calculate_compensation_fl (\<lambda>x. x) = calculate_compensation"
  unfolding calculate_compensation_fl_def calculate_compensation_def
    shift_loop_fl_exact process_nights_fl_exact truediv_fl_exact
  by simp

text \<open>The rounded function returns for every input and every \<open>fl\<close>; the fields used
  below, each as the source assigns it.\<close>

lemma calculate_compensation_fl_returns:
  "\<exists>r. calculate_compensation_fl fl start_date leave_days status_fte non_clinical_fte
          other_dept_fte academic_rank shift_days graduation_year addiction_board_certified
          stipend = Inr r \<and>
     time_fraction r =
       fl (of_int (max 0
         ((if date_le start_date FISCAL_YEAR_START then 365
           else if date_gt start_date FISCAL_YEAR_END then 0
           else days_between FISCAL_YEAR_END start_date + 1) - leave_days)) / 365) \<and>
     addiction_fte r = fl (of_int (dict_get shift_days ''Addiction'' 0) / 183) \<and>
     hospitalist_fte r =
       max 0 (fl (fl (fl (status_fte - non_clinical_fte) - other_dept_fte) - addiction_fte r)) \<and>
     clinical_fte r = fl (hospitalist_fte r * time_fraction r) \<and>
     shift_equivalents r = py_int (fl (fl (clinical_fte r * 183) + fl (1 / 2))) \<and>
     shift_breakdown r =
       fst (process_nights_fl fl shift_days (shift_loop_fl fl shift_days ([], 0, 0))) \<and>
     total_sos_value r =
       fst (snd (process_nights_fl fl shift_days (shift_loop_fl fl shift_days ([], 0, 0))))"
  by (simp add: calculate_compensation_fl_def Let_def total_fy_days truediv_fl_nonzero truediv_fl_of_int_pos
      bind_result_Inr BASE_SHIFT_EQUIVALENTS_def case_prod_beta)

lemma rows_run_sum_snoc:
  "rows_run_sum fl (rows @ [(k, v)]) = fl (rows_run_sum fl rows + sos_value v)"
  by (simp add: rows_run_sum_def)

lemma rows_run_sum_exact: "rows_run_sum (\<lambda>x. x) rows = rows_sos rows"
proof (induction rows rule: rev_induct)
  case Nil
  then show ?case by (simp add: rows_run_sum_def rows_sos_def)
next
  case (snoc row rows)
  then show ?case by (cases row) (simp add: rows_run_sum_snoc rows_sos_def)
qed

lemma shift_step_fl_keys:
  "fst ` set (fst (shift_step_fl fl item acc))
     \<subseteq> fst ` set (fst acc) \<union> ({fst item} \<inter> fst ` set SHIFT_TYPES)"
  by (cases item; cases acc)
     (auto simp: shift_step_fl_def Let_def dom_update split: option.splits dest: map_of_Some_key)

lemma shift_loop_fl_keys:
  "fst ` set (fst (shift_loop_fl fl xs acc))
     \<subseteq> fst ` set (fst acc) \<union> (fst ` set xs \<inter> fst ` set SHIFT_TYPES)"
proof (induction xs arbitrary: acc)
  case Nil
  then show ?case by simp
next
  case (Cons item rest)
  have "fst ` set (fst (shift_loop_fl fl rest (shift_step_fl fl item acc)))
          \<subseteq> fst ` set (fst (shift_step_fl fl item acc))
              \<union> (fst ` set rest \<inter> fst ` set SHIFT_TYPES)"
    by (rule Cons.IH)
  also have "\<dots> \<subseteq> (fst ` set (fst acc) \<union> ({fst item} \<inter> fst ` set SHIFT_TYPES))
                   \<union> (fst ` set rest \<inter> fst ` set SHIFT_TYPES)"
    using shift_step_fl_keys [of fl item acc] by blast
  finally show ?case by auto
qed

lemma shift_loop_fl_no_night_rows:
  "''Standard Nights (first 21)'' \<notin> fst ` set (fst (shift_loop_fl fl xs ([], 0, 0)))"
  "''Premium Nights (after 21)'' \<notin> fst ` set (fst (shift_loop_fl fl xs ([], 0, 0)))"
  using shift_loop_fl_keys [of fl xs "([], 0, 0)"] night_rows_not_in_catalog by auto

lemma shift_step_fl_run_sum:
  assumes "fst item \<notin> fst ` set (fst acc)"
    and "rows_run_sum fl (fst acc) = fst (snd acc)"
  shows "rows_run_sum fl (fst (shift_step_fl fl item acc)) = fst (snd (shift_step_fl fl item acc))"
  using assms
  by (cases item; cases acc)
     (auto simp: shift_step_fl_def Let_def update_absent rows_run_sum_snoc split: option.splits)

lemma shift_loop_fl_run_sum:
  assumes "distinct (map fst xs)"
    and "fst ` set (fst acc) \<inter> fst ` set xs = {}"
    and "rows_run_sum fl (fst acc) = fst (snd acc)"
  shows "rows_run_sum fl (fst (shift_loop_fl fl xs acc)) = fst (snd (shift_loop_fl fl xs acc))"
  using assms
proof (induction xs arbitrary: acc)
  case Nil
  then show ?case by simp
next
  case (Cons item rest)
  from Cons.prems(2) have notin: "fst item \<notin> fst ` set (fst acc)" by auto
  from Cons.prems(2) have rest_disj: "fst ` set (fst acc) \<inter> fst ` set rest = {}" by auto
  from Cons.prems(1) have fresh: "fst item \<notin> fst ` set rest" by auto
  have step_sum: "rows_run_sum fl (fst (shift_step_fl fl item acc))
      = fst (snd (shift_step_fl fl item acc))"
    using notin Cons.prems(3) by (rule shift_step_fl_run_sum)
  have sub: "fst ` set (fst (shift_step_fl fl item acc))
      \<subseteq> insert (fst item) (fst ` set (fst acc))"
    using shift_step_fl_keys [of fl item acc] by (rule subset_trans) blast
  have disj: "fst ` set (fst (shift_step_fl fl item acc)) \<inter> fst ` set rest = {}"
  proof -
    have "fst ` set (fst (shift_step_fl fl item acc)) \<inter> fst ` set rest
            \<subseteq> insert (fst item) (fst ` set (fst acc)) \<inter> fst ` set rest"
      using sub by (rule Int_mono) simp
    also have "\<dots> = {}" using fresh rest_disj by simp
    finally show ?thesis by simp
  qed
  have "distinct (map fst rest)" using Cons.prems(1) by simp
  from Cons.IH [OF this disj step_sum] show ?case by simp
qed

lemma process_nights_fl_pos:
  assumes "''Standard Nights (first 21)'' \<notin> fst ` set bd"
    and "''Premium Nights (after 21)'' \<notin> fst ` set bd"
    and "0 < dict_get shift_days ''Nights'' 0"
  shows "\<exists>std prem.
     fst std = ''Standard Nights (first 21)'' \<and> fst prem = ''Premium Nights (after 21)'' \<and>
     process_nights_fl fl shift_days (bd, s, e) =
       (bd @ [std, prem],
        fl (s + fl (sos_value (snd std) + sos_value (snd prem))),
        fl (e + of_int (dict_get shift_days ''Nights'' 0)))"
proof -
  have prem: "''Premium Nights (after 21)''
      \<notin> fst ` set (bd @ [(''Standard Nights (first 21)'', v)])" for v
    using assms(2) by simp
  show ?thesis
    using assms(3)
    by (simp add: process_nights_fl_def Let_def update_absent [OF assms(1)]
        update_absent [OF prem])
qed

lemma process_nights_fl_nonpos:
  "\<not> 0 < dict_get shift_days ''Nights'' 0 \<Longrightarrow> process_nights_fl fl shift_days acc = acc"
  by (cases acc) (simp add: process_nights_fl_def)


section \<open>Rounding of the B component\<close>

text \<open>
  C1 (the code departs from the claim). The claim: \<open>b_fte_adjusted\<close> is
  \<open>b_with_experience * hm_fte - 105000 * status_fte\<close> rounded to the nearest multiple of
  100, an exact half going away from zero. The code divides by 100, applies \<^verbatim>\<open>round\<close>,
  which sends an exact half to the even neighbour, and multiplies by 100. For status FTE 1,
  non-clinical FTE 0.5, other-department FTE 0.5, graduation year 2020 and no shift days,
  the amount to round is 210500 * 0.5 - 105000 = 250: the call returns 200, where the
  specification's rule gives 300.
\<close>

theorem b_fte_adjusted_rounds_half_to_even:
  "map_sum id hm_fte
     (calculate_compensation (Date 2026 7 1) 0 1 (1 / 2) (1 / 2) ''Assistant Professor''
        [(''Teaching'', 0), (''Women & Families Days'', 0), (''Nights'', 0), (''Episcopal'', 0),
         (''Clinic'', 0), (''Addiction'', 0), (''Direct Care Days'', 0)] 2020 False 0) = Inr (1 / 2) \<and>
   map_sum id b_with_experience
     (calculate_compensation (Date 2026 7 1) 0 1 (1 / 2) (1 / 2) ''Assistant Professor''
        [(''Teaching'', 0), (''Women & Families Days'', 0), (''Nights'', 0), (''Episcopal'', 0),
         (''Clinic'', 0), (''Addiction'', 0), (''Direct Care Days'', 0)] 2020 False 0) = Inr 210500 \<and>
   map_sum id b_fte_adjusted
     (calculate_compensation (Date 2026 7 1) 0 1 (1 / 2) (1 / 2) ''Assistant Professor''
        [(''Teaching'', 0), (''Women & Families Days'', 0), (''Nights'', 0), (''Episcopal'', 0),
         (''Clinic'', 0), (''Addiction'', 0), (''Direct Care Days'', 0)] 2020 False 0) = Inr 200 \<and>
   spec_round_to_nearest_100 (210500 * (1 / 2) - 105000 * 1) = 300"
proof -
  have hm: "map_sum id hm_fte
     (calculate_compensation (Date 2026 7 1) 0 1 (1 / 2) (1 / 2) ''Assistant Professor''
        [(''Teaching'', 0), (''Women & Families Days'', 0), (''Nights'', 0), (''Episcopal'', 0),
         (''Clinic'', 0), (''Addiction'', 0), (''Direct Care Days'', 0)] 2020 False 0) = Inr (1 / 2)"
    by code_simp
  have bwe: "map_sum id b_with_experience
     (calculate_compensation (Date 2026 7 1) 0 1 (1 / 2) (1 / 2) ''Assistant Professor''
        [(''Teaching'', 0), (''Women & Families Days'', 0), (''Nights'', 0), (''Episcopal'', 0),
         (''Clinic'', 0), (''Addiction'', 0), (''Direct Care Days'', 0)] 2020 False 0) = Inr 210500"
    by code_simp
  have b: "map_sum id b_fte_adjusted
     (calculate_compensation (Date 2026 7 1) 0 1 (1 / 2) (1 / 2) ''Assistant Professor''
        [(''Teaching'', 0), (''Women & Families Days'', 0), (''Nights'', 0), (''Episcopal'', 0),
         (''Clinic'', 0), (''Addiction'', 0), (''Direct Care Days'', 0)] 2020 False 0) = Inr 200"
    by code_simp
  have spec: "spec_round_to_nearest_100 (210500 * (1 / 2) - 105000 * 1) = 300"
    by (simp add: spec_round_to_nearest_100_def)
  from hm bwe b spec show ?thesis by (intro conjI)
qed

section \<open>Shift equivalents\<close>

text \<open>
  C2 (the code departs from the claim). The claim: \<open>shift_equivalents\<close> is
  \<open>clinical_fte * 183\<close> rounded to the nearest integer, an exact half going up. The code
  computes \<^verbatim>\<open>int(clinical_fte * 183 + 0.5)\<close> in binary64, and the addition of 0.5 is itself
  rounded. For status FTE 0.15, non-clinical FTE 0.05, 11 Addiction days and 340 leave
  days in a full year (25 effective days), \<open>clinical_fte * 183\<close> is the double just below
  one half, \<open>1/2 - 2^-54\<close> (0.49999999999999994); adding 0.5 gives exactly 1.0, so the call
  returns \<open>shift_equivalents = 1\<close>, where the nearest integer is 0.
\<close>

theorem shift_equivalents_misrounds_below_half:
  "map_sum id clinical_fte
     (calculate_compensation_fl fl64 (Date 2026 7 1) 340 (fl64 (15 / 100)) (fl64 (5 / 100)) 0
        ''Assistant Professor'' [(''Addiction'', 11)] 2026 False 0) = Inr (787514688939103 / 288230376151711744) \<and>
   fl64 (787514688939103 / 288230376151711744 * 183) = 9007199254740991 / 18014398509481984 \<and>
   map_sum id shift_equivalents
     (calculate_compensation_fl fl64 (Date 2026 7 1) 340 (fl64 (15 / 100)) (fl64 (5 / 100)) 0
        ''Assistant Professor'' [(''Addiction'', 11)] 2026 False 0) = Inr 1 \<and>
   spec_round_half_up (9007199254740991 / 18014398509481984) = 0"
proof -
  have f0: "fl64 (3 / 20) = 5404319552844595 / 36028797018963968" by code_simp
  have f1: "fl64 (1 / 20) = 3602879701896397 / 72057594037927936" by code_simp
  have f2: "fl64 (5 / 73) = 1233862911608355 / 18014398509481984" by code_simp
  have f3: "fl64 (11 / 183) = 4331330789165067 / 72057594037927936" by code_simp
  have f4: "fl64 (7205759403792793 / 72057594037927936) = 7205759403792793 / 72057594037927936" by code_simp
  have f5: "fl64 (1437214307313863 / 36028797018963968) = 1437214307313863 / 36028797018963968" by code_simp
  have f6: "fl64 (1773325429827468101761118125365 / 649037107316853453566312041152512) = 787514688939103 / 288230376151711744" by code_simp
  have f7: "fl64 (144115188075855849 / 288230376151711744) = 9007199254740991 / 18014398509481984" by code_simp
  have f8: "fl64 (1 / 2) = 1 / 2" by code_simp
  have f9: "fl64 (18014398509481983 / 18014398509481984) = 1" by code_simp
  from calculate_compensation_fl_returns [of fl64 "Date 2026 7 1" 340 "fl64 (15 / 100)"
      "fl64 (5 / 100)" 0 "''Assistant Professor''" "[(''Addiction'', 11)]" 2026 False 0]
  obtain r where call: "calculate_compensation_fl fl64 (Date 2026 7 1) 340 (fl64 (15 / 100)) (fl64 (5 / 100)) 0
        ''Assistant Professor'' [(''Addiction'', 11)] 2026 False 0 = Inr r"
    and tf: "time_fraction r =
       fl64 (of_int (max 0
         ((if date_le (Date 2026 7 1) FISCAL_YEAR_START then 365
           else if date_gt (Date 2026 7 1) FISCAL_YEAR_END then 0
           else days_between FISCAL_YEAR_END (Date 2026 7 1) + 1) - 340)) / 365)"
    and a: "addiction_fte r = fl64 (of_int (dict_get [(''Addiction'', 11)] ''Addiction'' 0) / 183)"
    and hosp: "hospitalist_fte r =
       max 0 (fl64 (fl64 (fl64 (fl64 (15 / 100) - fl64 (5 / 100)) - 0) - addiction_fte r))"
    and clin: "clinical_fte r = fl64 (hospitalist_fte r * time_fraction r)"
    and se: "shift_equivalents r = py_int (fl64 (fl64 (clinical_fte r * 183) + fl64 (1 / 2)))"
    by blast
  have tf': "time_fraction r = 1233862911608355 / 18014398509481984"
    using tf by (simp add: date_le_def FISCAL_YEAR_START_def f0 f1 f2 f3 f4 f5 f6 f7 f8 f9)
  have a': "addiction_fte r = 4331330789165067 / 72057594037927936"
    using a by (simp add: dict_get_def f0 f1 f2 f3 f4 f5 f6 f7 f8 f9)
  have hosp': "hospitalist_fte r = 1437214307313863 / 36028797018963968"
    using hosp a' by (simp add: f0 f1 f2 f3 f4 f5 f6 f7 f8 f9)
  have clin': "clinical_fte r = 787514688939103 / 288230376151711744"
    using clin hosp' tf' by (simp add: f0 f1 f2 f3 f4 f5 f6 f7 f8 f9)
  have x: "fl64 (787514688939103 / 288230376151711744 * 183) = 9007199254740991 / 18014398509481984"
    by (simp add: f0 f1 f2 f3 f4 f5 f6 f7 f8 f9)
  have se': "shift_equivalents r = 1"
    using se clin' by (simp add: py_int_def f0 f1 f2 f3 f4 f5 f6 f7 f8 f9)
  have spec: "spec_round_half_up (9007199254740991 / 18014398509481984) = 0"
    by code_simp
  have c1: "map_sum id clinical_fte
     (calculate_compensation_fl fl64 (Date 2026 7 1) 340 (fl64 (15 / 100)) (fl64 (5 / 100)) 0
        ''Assistant Professor'' [(''Addiction'', 11)] 2026 False 0) = Inr (787514688939103 / 288230376151711744)"
    unfolding call using clin' by simp
  have c2: "map_sum id shift_equivalents
     (calculate_compensation_fl fl64 (Date 2026 7 1) 340 (fl64 (15 / 100)) (fl64 (5 / 100)) 0
        ''Assistant Professor'' [(''Addiction'', 11)] 2026 False 0) = Inr 1"
    unfolding call using se' by simp
  from c1 x c2 spec show ?thesis by (intro conjI)
qed

section \<open>Tiered night pay\<close>

text \<open>
  C3. Write \<open>before\<close> for the state after the shift loop and \<open>after\<close> for the state after
  the night step. No row of \<open>before\<close> carries a night row's name. With \<open>night_days > 0\<close> the
  result's \<open>shift_breakdown\<close> is the rows of \<open>before\<close> followed by exactly two rows:
  "Standard Nights (first 21)" with \<open>days = shift_eq = min(night_days, 21)\<close> and
  \<open>sos_value = min(night_days, 21) * 1.5\<close>, then "Premium Nights (after 21)" with
  \<open>days = shift_eq = max(0, night_days - 21)\<close> and \<open>sos_value = max(0, night_days - 21) * 1.75\<close>;
  \<open>total_sos_value\<close> grows by both SoS values and \<open>total_shift_eq\<close> by the full
  \<open>night_days\<close>. Otherwise (in particular with \<open>night_days = 0\<close>) no row is added and
  neither total changes.
\<close>

theorem night_tiering:
  "\<exists>r. calculate_compensation start_date leave_days status_fte non_clinical_fte other_dept_fte
          academic_rank shift_days graduation_year addiction_board_certified stipend = Inr r \<and>
     (let night_days = dict_get shift_days ''Nights'' 0;
          standard_nights = min night_days 21;
          premium_nights = max 0 (night_days - 21);
          before = shift_loop shift_days ([], 0, 0);
          after = process_nights shift_days before
      in ''Standard Nights (first 21)'' \<notin> fst ` set (fst before) \<and>
         ''Premium Nights (after 21)'' \<notin> fst ` set (fst before) \<and>
         (if 0 < night_days then
            shift_breakdown r =
              fst before @
              [(''Standard Nights (first 21)'',
                \<lparr>days = standard_nights, shift_eq = of_int standard_nights,
                 sos_value = of_int standard_nights * (3 / 2)\<rparr>),
               (''Premium Nights (after 21)'',
                \<lparr>days = premium_nights, shift_eq = of_int premium_nights,
                 sos_value = of_int premium_nights * (7 / 4)\<rparr>)] \<and>
            total_sos_value r =
              fst (snd before) + of_int standard_nights * (3 / 2)
                + of_int premium_nights * (7 / 4) \<and>
            snd (snd after) = snd (snd before) + of_int night_days
          else
            shift_breakdown r = fst before \<and>
            total_sos_value r = fst (snd before) \<and>
            snd (snd after) = snd (snd before)))"
proof -
  obtain r where call: "calculate_compensation start_date leave_days status_fte non_clinical_fte
      other_dept_fte academic_rank shift_days graduation_year addiction_board_certified stipend = Inr r"
    and rows: "shift_breakdown r =
      fst (process_nights shift_days (shift_loop shift_days ([], 0, 0)))"
    and total: "total_sos_value r =
      fst (snd (process_nights shift_days (shift_loop shift_days ([], 0, 0))))"
    using calculate_compensation_returns by blast
  obtain bd s e where before: "shift_loop shift_days ([], 0, 0) = (bd, s, e)"
    by (cases "shift_loop shift_days ([], 0, 0)")
  have std: "''Standard Nights (first 21)'' \<notin> fst ` set bd"
    and prem: "''Premium Nights (after 21)'' \<notin> fst ` set bd"
    using shift_loop_no_night_rows [of shift_days] before by simp_all
  show ?thesis
  proof (cases "0 < dict_get shift_days ''Nights'' 0")
    case True
    from process_nights_pos [OF std prem True, of s e] call rows total before std prem True
    show ?thesis by (simp add: Let_def)
  next
    case False
    from process_nights_nonpos [OF False, of "(bd, s, e)"] call rows total before std prem False
    show ?thesis by (simp add: Let_def)
  qed
qed

theorem night_tiering_witness:
  "\<exists>r. calculate_compensation (Date 2026 7 1) 0 1 0 0 ''Assistant Professor''
          [(''Teaching'', 10), (''Nights'', 22)] 2026 False 0 = Inr r \<and>
        shift_breakdown r =
          [(''Teaching'', \<lparr>days = 10, shift_eq = 10, sos_value = 10\<rparr>),
           (''Standard Nights (first 21)'', \<lparr>days = 21, shift_eq = 21, sos_value = 63 / 2\<rparr>),
           (''Premium Nights (after 21)'', \<lparr>days = 1, shift_eq = 1, sos_value = 7 / 4\<rparr>)] \<and>
        total_sos_value r = 173 / 4"
proof -
  have before: "shift_loop [(''Teaching'', 10), (''Nights'', 22)] ([], 0, 0)
      = ([(''Teaching'', \<lparr>days = 10, shift_eq = 10, sos_value = 10\<rparr>)], 10, 10)"
    by (simp add: shift_step_def SHIFT_TYPES_def)
  from night_tiering [of "Date 2026 7 1" 0 1 0 0 "''Assistant Professor''"
      "[(''Teaching'', 10), (''Nights'', 22)]" 2026 False 0]
  show ?thesis
    unfolding Let_def before by (auto simp: dict_get_def)
qed

section \<open>The SoS multiplier\<close>

text \<open>
  C4 (amended). The division is guarded and the call never fails: \<open>sos_multiplier\<close> is
  \<open>total_sos_value / shift_equivalents\<close> when \<open>shift_equivalents > 0\<close> (the rounded,
  FTE-derived count, not \<open>total_shift_eq\<close>) and exactly 1 when \<open>shift_equivalents = 0\<close>.
  An input whose shift days are all zero has \<open>total_sos_value = 0\<close>; its multiplier is 1
  only when \<open>shift_equivalents = 0\<close>, and 0 when \<open>shift_equivalents > 0\<close>, because
  with all shift days zero \<open>shift_equivalents\<close> is fixed by the FTE inputs and the time
  fraction alone.
\<close>

theorem sos_multiplier_guarded:
  "\<exists>r. calculate_compensation start_date leave_days status_fte non_clinical_fte other_dept_fte
          academic_rank shift_days graduation_year addiction_board_certified stipend = Inr r \<and>
        sos_multiplier r =
          (if 0 < shift_equivalents r then total_sos_value r / of_int (shift_equivalents r)
           else 1) \<and>
        (list_all (\<lambda>(k, d). d = 0) shift_days \<longrightarrow>
           total_sos_value r = 0 \<and>
           sos_multiplier r = (if 0 < shift_equivalents r then 0 else 1))"
proof -
  obtain r where call: "calculate_compensation start_date leave_days status_fte non_clinical_fte
      other_dept_fte academic_rank shift_days graduation_year addiction_board_certified stipend = Inr r"
    and total: "total_sos_value r =
      fst (snd (process_nights shift_days (shift_loop shift_days ([], 0, 0))))"
    and mult: "sos_multiplier r =
      (if 0 < shift_equivalents r then total_sos_value r / of_int (shift_equivalents r) else 1)"
    using calculate_compensation_returns by blast
  have zero: "total_sos_value r = 0" if "list_all (\<lambda>(k, d). d = 0) shift_days"
    using that total by (simp add: process_nights_zero shift_loop_zero)
  from call mult zero show ?thesis by auto
qed

theorem sos_multiplier_guarded_witness:
  "list_all (\<lambda>(k, d). d = 0) [(''Teaching'', 0::int), (''Nights'', 0), (''Addiction'', 0)] \<and>
   (\<exists>r. calculate_compensation (Date 2026 7 1) 0 0 0 0 ''Assistant Professor''
          [(''Teaching'', 0), (''Nights'', 0), (''Addiction'', 0)] 2026 False 0 = Inr r \<and>
        shift_equivalents r = 0 \<and> total_sos_value r = 0 \<and> sos_multiplier r = 1)"
proof -
  from sos_multiplier_guarded [of "Date 2026 7 1" 0 0 0 0 "''Assistant Professor''"
      "[(''Teaching'', 0), (''Nights'', 0), (''Addiction'', 0)]" 2026 False 0]
  obtain r where call: "calculate_compensation (Date 2026 7 1) 0 0 0 0 ''Assistant Professor''
          [(''Teaching'', 0), (''Nights'', 0), (''Addiction'', 0)] 2026 False 0 = Inr r"
    and zero: "list_all (\<lambda>(k, d). d = 0) [(''Teaching'', 0::int), (''Nights'', 0), (''Addiction'', 0)]
       \<longrightarrow> total_sos_value r = 0 \<and> sos_multiplier r = (if 0 < shift_equivalents r then 0 else 1)"
    by blast
  have "map_sum id shift_equivalents (calculate_compensation (Date 2026 7 1) 0 0 0 0
      ''Assistant Professor'' [(''Teaching'', 0), (''Nights'', 0), (''Addiction'', 0)] 2026 False 0)
      = Inr 0"
    by code_simp
  with call have se: "shift_equivalents r = 0" by simp
  with zero call show ?thesis by simp
qed

text \<open>
  The claim as first stated ("all shift days zero gives multiplier 1") fails for a
  full-time physician with every shift count at zero: \<open>shift_equivalents\<close> is 183 and the
  multiplier is 0 / 183 = 0.
\<close>

theorem sos_multiplier_zero_days_counterexample:
  "list_all (\<lambda>(k, d). d = 0)
     [(''Teaching'', 0::int), (''Women & Families Days'', 0), (''Nights'', 0), (''Episcopal'', 0),
      (''Clinic'', 0), (''Addiction'', 0), (''Direct Care Days'', 0)] \<and>
   map_sum id shift_equivalents
     (calculate_compensation (Date 2026 7 1) 0 1 0 0 ''Assistant Professor''
        [(''Teaching'', 0), (''Women & Families Days'', 0), (''Nights'', 0), (''Episcopal'', 0),
         (''Clinic'', 0), (''Addiction'', 0), (''Direct Care Days'', 0)] 2026 False 0) = Inr 183 \<and>
   map_sum id sos_multiplier
     (calculate_compensation (Date 2026 7 1) 0 1 0 0 ''Assistant Professor''
        [(''Teaching'', 0), (''Women & Families Days'', 0), (''Nights'', 0), (''Episcopal'', 0),
         (''Clinic'', 0), (''Addiction'', 0), (''Direct Care Days'', 0)] 2026 False 0) = Inr 0 \<and>
   map_sum id sos_multiplier
     (calculate_compensation (Date 2026 7 1) 0 1 0 0 ''Assistant Professor''
        [(''Teaching'', 0), (''Women & Families Days'', 0), (''Nights'', 0), (''Episcopal'', 0),
         (''Clinic'', 0), (''Addiction'', 0), (''Direct Care Days'', 0)] 2026 False 0) \<noteq> Inr 1"
proof -
  have days: "list_all (\<lambda>(k, d). d = 0)
     [(''Teaching'', 0::int), (''Women & Families Days'', 0), (''Nights'', 0), (''Episcopal'', 0),
      (''Clinic'', 0), (''Addiction'', 0), (''Direct Care Days'', 0)]"
    by simp
  have se: "map_sum id shift_equivalents
     (calculate_compensation (Date 2026 7 1) 0 1 0 0 ''Assistant Professor''
        [(''Teaching'', 0), (''Women & Families Days'', 0), (''Nights'', 0), (''Episcopal'', 0),
         (''Clinic'', 0), (''Addiction'', 0), (''Direct Care Days'', 0)] 2026 False 0) = Inr 183"
    by code_simp
  have mult: "map_sum id sos_multiplier
     (calculate_compensation (Date 2026 7 1) 0 1 0 0 ''Assistant Professor''
        [(''Teaching'', 0), (''Women & Families Days'', 0), (''Nights'', 0), (''Episcopal'', 0),
         (''Clinic'', 0), (''Addiction'', 0), (''Direct Care Days'', 0)] 2026 False 0) = Inr 0"
    by code_simp
  have differs: "map_sum id sos_multiplier
     (calculate_compensation (Date 2026 7 1) 0 1 0 0 ''Assistant Professor''
        [(''Teaching'', 0), (''Women & Families Days'', 0), (''Nights'', 0), (''Episcopal'', 0),
         (''Clinic'', 0), (''Addiction'', 0), (''Direct Care Days'', 0)] 2026 False 0) \<noteq> Inr 1"
    unfolding mult by simp
  from days se mult differs show ?thesis by (intro conjI)
qed

section \<open>Component A\<close>

text \<open>
  C5. \<open>a_component\<close> is the rank table's value for a recognised rank and 105000 for any
  other rank (the lookup never fails), and \<open>a_fte_adjusted = a_component * status_fte\<close>.
  A second call with the same rank and status FTE and any other start date, leave days,
  shift days (and any other remaining inputs) returns the same \<open>a_fte_adjusted\<close>.
\<close>

theorem a_component_by_rank:
  "\<exists>r r'.
     calculate_compensation start_date leave_days status_fte non_clinical_fte other_dept_fte
       academic_rank shift_days graduation_year addiction_board_certified stipend = Inr r \<and>
     calculate_compensation start_date' leave_days' status_fte non_clinical_fte' other_dept_fte'
       academic_rank shift_days' graduation_year' addiction_board_certified' stipend' = Inr r' \<and>
     a_component r =
       (case map_of A_COMPONENT_BY_RANK academic_rank of Some v \<Rightarrow> v | None \<Rightarrow> 105000) \<and>
     a_component r =
       (if academic_rank = ''Assistant Professor'' then 105000
        else if academic_rank = ''Associate Professor'' then 120750
        else if academic_rank = ''Professor'' then 136500
        else if academic_rank = ''TFP NFP Physician'' then 105000
        else 105000) \<and>
     a_fte_adjusted r = of_int (a_component r) * status_fte \<and>
     a_fte_adjusted r' = a_fte_adjusted r"
  by (simp add: calc_simps dict_get_def A_COMPONENT_BY_RANK_def)

section \<open>FTE decomposition\<close>

text \<open>
  C6. With non-negative day counts, \<open>addiction_fte\<close> is the Addiction day count (0 when
  the key is missing) divided by 183; \<open>hm_fte = max(0, status_fte - other_dept_fte -
  addiction_fte)\<close>, without the non-clinical carve-out; the reported hospitalist FTE is
  \<open>max(0, status_fte - non_clinical_fte - other_dept_fte - addiction_fte)\<close>, with it;
  \<open>clinical_fte\<close> is the hospitalist FTE times the time fraction; and none of the four is
  negative.
\<close>

theorem fte_decomposition:
  assumes "list_all (\<lambda>(k, d). 0 \<le> d) shift_days"
  shows "\<exists>r.
    calculate_compensation start_date leave_days status_fte non_clinical_fte other_dept_fte
      academic_rank shift_days graduation_year addiction_board_certified stipend = Inr r \<and>
    addiction_fte r = of_int (dict_get shift_days ''Addiction'' 0) / 183 \<and>
    hm_fte r = max 0 (status_fte - other_dept_fte - addiction_fte r) \<and>
    hospitalist_fte r =
      max 0 (status_fte - non_clinical_fte - other_dept_fte - addiction_fte r) \<and>
    clinical_fte r = hospitalist_fte r * time_fraction r \<and>
    0 \<le> addiction_fte r \<and> 0 \<le> hm_fte r \<and> 0 \<le> hospitalist_fte r \<and> 0 \<le> clinical_fte r"
proof -
  have "0 \<le> dict_get shift_days ''Addiction'' 0"
    using assms by (rule dict_get_nonneg)
  then show ?thesis
    by (simp add: calc_simps)
qed

theorem fte_decomposition_witness:
  "list_all (\<lambda>(k, d). 0 \<le> d) [(''Teaching'', 42::int), (''Nights'', 28), (''Addiction'', 61)] \<and>
   (\<exists>r. calculate_compensation (Date 2026 7 1) 0 1 (1 / 10) (1 / 5) ''Professor''
           [(''Teaching'', 42), (''Nights'', 28), (''Addiction'', 61)] 2020 False 0 = Inr r \<and>
         addiction_fte r = 1 / 3 \<and>
         hm_fte r = 7 / 15 \<and>
         hospitalist_fte r = 11 / 30 \<and>
         clinical_fte r = hospitalist_fte r * time_fraction r \<and>
         0 \<le> addiction_fte r \<and> 0 \<le> hm_fte r \<and> 0 \<le> hospitalist_fte r \<and> 0 \<le> clinical_fte r)"
proof -
  have days: "list_all (\<lambda>(k, d). 0 \<le> d) [(''Teaching'', 42::int), (''Nights'', 28), (''Addiction'', 61)]"
    by simp
  from fte_decomposition [OF days, of "Date 2026 7 1" 0 1 "1 / 10" "1 / 5" "''Professor''" 2020 False 0]
  obtain r where call: "calculate_compensation (Date 2026 7 1) 0 1 (1 / 10) (1 / 5) ''Professor''
           [(''Teaching'', 42), (''Nights'', 28), (''Addiction'', 61)] 2020 False 0 = Inr r"
    and a: "addiction_fte r = of_int (dict_get [(''Teaching'', 42), (''Nights'', 28), (''Addiction'', 61)] ''Addiction'' 0) / 183"
    and hm: "hm_fte r = max 0 (1 - 1 / 5 - addiction_fte r)"
    and hosp: "hospitalist_fte r = max 0 (1 - 1 / 10 - 1 / 5 - addiction_fte r)"
    and clin: "clinical_fte r = hospitalist_fte r * time_fraction r"
    and nonneg: "0 \<le> addiction_fte r" "0 \<le> hm_fte r" "0 \<le> hospitalist_fte r" "0 \<le> clinical_fte r"
    by blast
  have a': "addiction_fte r = 1 / 3" using a by (simp add: dict_get_def)
  have hm': "hm_fte r = 7 / 15" using hm a' by simp
  have hosp': "hospitalist_fte r = 11 / 30" using hosp a' by simp
  from days call a' hm' hosp' clin nonneg show ?thesis by blast
qed

section \<open>Time fraction\<close>

text \<open>
  C7. The time fraction is \<open>max(0, days_in_fy - leave_days) / total_days\<close> with
  \<open>total_days = 365\<close>, where \<open>days_in_fy\<close> is 365 for a start date on or before the first
  day of the fiscal year (1 July 2026), 0 for a start date after its last day
  (30 June 2027), and otherwise the inclusive number of days from the start date through
  the last day. The call returns a result for every start date and every number of leave
  days, and the time fraction is never negative.
\<close>

theorem time_fraction_formula:
  "\<exists>r. calculate_compensation start_date leave_days status_fte non_clinical_fte other_dept_fte
          academic_rank shift_days graduation_year addiction_board_certified stipend = Inr r \<and>
        TOTAL_FY_DAYS = 365 \<and>
        time_fraction r =
          of_int (max 0
            ((if date_le start_date FISCAL_YEAR_START then 365
              else if date_gt start_date FISCAL_YEAR_END then 0
              else toordinal FISCAL_YEAR_END - toordinal start_date + 1) - leave_days)) / 365 \<and>
        0 \<le> time_fraction r"
  by (simp add: calc_simps days_between_def)

section \<open>The total SoS value and the rows\<close>

text \<open>In exact arithmetic the total is the sum of the rows.\<close>

lemma total_sos_matches_rows_exact:
  assumes "distinct (map fst shift_days)"
  shows "\<exists>r. calculate_compensation start_date leave_days status_fte non_clinical_fte
            other_dept_fte academic_rank shift_days graduation_year addiction_board_certified
            stipend = Inr r \<and>
          total_sos_value r = sum_list (map (\<lambda>row. sos_value (snd row)) (shift_breakdown r))"
proof -
  obtain r where call: "calculate_compensation start_date leave_days status_fte non_clinical_fte
      other_dept_fte academic_rank shift_days graduation_year addiction_board_certified stipend = Inr r"
    and rows: "shift_breakdown r =
      fst (process_nights shift_days (shift_loop shift_days ([], 0, 0)))"
    and total: "total_sos_value r =
      fst (snd (process_nights shift_days (shift_loop shift_days ([], 0, 0))))"
    using calculate_compensation_returns by blast
  have loop: "rows_sos (fst (shift_loop shift_days ([], 0, 0)))
      = fst (snd (shift_loop shift_days ([], 0, 0)))"
    using assms by (rule shift_loop_sum) (simp_all add: rows_sos_def)
  have "rows_sos (fst (process_nights shift_days (shift_loop shift_days ([], 0, 0))))
      = fst (snd (process_nights shift_days (shift_loop shift_days ([], 0, 0))))"
    using shift_loop_no_night_rows loop by (rule process_nights_sum)
  with call rows total show ?thesis by (simp add: rows_sos_def)
qed

text \<open>
  C8 (amended). For shift days with distinct keys (every Python \<^verbatim>\<open>dict\<close>), the returned
  \<open>total_sos_value\<close> is the running sum, in the program's rounded arithmetic and in row
  order, of the \<open>sos_value\<close> fields of the returned \<open>shift_breakdown\<close>, rows with zero days
  included; when the two night rows are present (they are the last two rows), their two
  values are first added to each other and that sum is then added to the running sum of
  the rows before them. In exact arithmetic this is the sum of the \<open>sos_value\<close> fields over
  all rows.
\<close>

theorem total_sos_running_sum:
  assumes "distinct (map fst shift_days)"
  shows "(\<exists>r. calculate_compensation_fl fl start_date leave_days status_fte non_clinical_fte
            other_dept_fte academic_rank shift_days graduation_year addiction_board_certified
            stipend = Inr r \<and>
          (if 0 < dict_get shift_days ''Nights'' 0
           then \<exists>rows std prem.
                  fst std = ''Standard Nights (first 21)'' \<and>
                  fst prem = ''Premium Nights (after 21)'' \<and>
                  shift_breakdown r = rows @ [std, prem] \<and>
                  total_sos_value r =
                    fl (rows_run_sum fl rows + fl (sos_value (snd std) + sos_value (snd prem)))
           else total_sos_value r = rows_run_sum fl (shift_breakdown r))) \<and>
         (\<exists>r. calculate_compensation start_date leave_days status_fte non_clinical_fte
            other_dept_fte academic_rank shift_days graduation_year addiction_board_certified
            stipend = Inr r \<and>
          total_sos_value r = sum_list (map (\<lambda>row. sos_value (snd row)) (shift_breakdown r)))"
proof -
  obtain r where call: "calculate_compensation_fl fl start_date leave_days status_fte
      non_clinical_fte other_dept_fte academic_rank shift_days graduation_year
      addiction_board_certified stipend = Inr r"
    and rows: "shift_breakdown r =
      fst (process_nights_fl fl shift_days (shift_loop_fl fl shift_days ([], 0, 0)))"
    and total: "total_sos_value r =
      fst (snd (process_nights_fl fl shift_days (shift_loop_fl fl shift_days ([], 0, 0))))"
    using calculate_compensation_fl_returns by blast
  obtain bd s e where before: "shift_loop_fl fl shift_days ([], 0, 0) = (bd, s, e)"
    by (cases "shift_loop_fl fl shift_days ([], 0, 0)")
  have std: "''Standard Nights (first 21)'' \<notin> fst ` set bd"
    and prem: "''Premium Nights (after 21)'' \<notin> fst ` set bd"
    using shift_loop_fl_no_night_rows [of fl shift_days] before by simp_all
  have "rows_run_sum fl (fst (shift_loop_fl fl shift_days ([], 0, 0)))
      = fst (snd (shift_loop_fl fl shift_days ([], 0, 0)))"
    using assms by (rule shift_loop_fl_run_sum) (simp_all add: rows_run_sum_def)
  with before have loop: "rows_run_sum fl bd = s" by simp
  have rounded: "if 0 < dict_get shift_days ''Nights'' 0
           then \<exists>rows std prem.
                  fst std = ''Standard Nights (first 21)'' \<and>
                  fst prem = ''Premium Nights (after 21)'' \<and>
                  shift_breakdown r = rows @ [std, prem] \<and>
                  total_sos_value r =
                    fl (rows_run_sum fl rows + fl (sos_value (snd std) + sos_value (snd prem)))
           else total_sos_value r = rows_run_sum fl (shift_breakdown r)"
  proof (cases "0 < dict_get shift_days ''Nights'' 0")
    case True
    from process_nights_fl_pos [OF std prem True, of fl s e]
    obtain sr pr where names: "fst sr = ''Standard Nights (first 21)''"
        "fst pr = ''Premium Nights (after 21)''"
      and nights: "process_nights_fl fl shift_days (bd, s, e) =
        (bd @ [sr, pr], fl (s + fl (sos_value (snd sr) + sos_value (snd pr))),
         fl (e + of_int (dict_get shift_days ''Nights'' 0)))"
      by blast
    from rows total before nights loop
    have "shift_breakdown r = bd @ [sr, pr]"
      and "total_sos_value r =
        fl (rows_run_sum fl bd + fl (sos_value (snd sr) + sos_value (snd pr)))"
      by simp_all
    with names have "\<exists>rows std prem.
        fst std = ''Standard Nights (first 21)'' \<and>
        fst prem = ''Premium Nights (after 21)'' \<and>
        shift_breakdown r = rows @ [std, prem] \<and>
        total_sos_value r =
          fl (rows_run_sum fl rows + fl (sos_value (snd std) + sos_value (snd prem)))"
      by blast
    with True show ?thesis by (simp only: if_True)
  next
    case False
    from process_nights_fl_nonpos [OF False, of fl "(bd, s, e)"] rows total before loop False
    show ?thesis by simp
  qed
  from total_sos_matches_rows_exact [OF assms]
  have exact: "\<exists>r. calculate_compensation start_date leave_days status_fte non_clinical_fte
            other_dept_fte academic_rank shift_days graduation_year addiction_board_certified
            stipend = Inr r \<and>
          total_sos_value r = sum_list (map (\<lambda>row. sos_value (snd row)) (shift_breakdown r))"
    by blast
  from call rounded exact show ?thesis by blast
qed

theorem total_sos_running_sum_witness:
  "distinct (map fst [(''Women & Families Days'', 9::int), (''Clinic'', 1), (''Nights'', 34)]) \<and>
   (\<exists>r. calculate_compensation_fl fl64 (Date 2026 7 1) 0 1 0 0 ''Assistant Professor''
          [(''Women & Families Days'', 9), (''Clinic'', 1), (''Nights'', 34)] 2026 False 0
          = Inr r \<and>
        (\<exists>rows std prem.
           fst std = ''Standard Nights (first 21)'' \<and>
           fst prem = ''Premium Nights (after 21)'' \<and>
           shift_breakdown r = rows @ [std, prem] \<and>
           total_sos_value r =
             fl64 (rows_run_sum fl64 rows + fl64 (sos_value (snd std) + sos_value (snd prem)))))"
proof -
  have keys: "distinct (map fst [(''Women & Families Days'', 9::int), (''Clinic'', 1), (''Nights'', 34)])"
    by simp
  have nights: "0 < dict_get [(''Women & Families Days'', 9::int), (''Clinic'', 1), (''Nights'', 34)]
      ''Nights'' 0"
    by (simp add: dict_get_def)
  from total_sos_running_sum [OF keys, of fl64 "Date 2026 7 1" 0 1 0 0 "''Assistant Professor''" 2026 False 0]
  have "\<exists>r. calculate_compensation_fl fl64 (Date 2026 7 1) 0 1 0 0 ''Assistant Professor''
          [(''Women & Families Days'', 9), (''Clinic'', 1), (''Nights'', 34)] 2026 False 0
          = Inr r \<and>
        (if 0 < dict_get [(''Women & Families Days'', 9::int), (''Clinic'', 1), (''Nights'', 34)]
              ''Nights'' 0
         then \<exists>rows std prem.
           fst std = ''Standard Nights (first 21)'' \<and>
           fst prem = ''Premium Nights (after 21)'' \<and>
           shift_breakdown r = rows @ [std, prem] \<and>
           total_sos_value r =
             fl64 (rows_run_sum fl64 rows + fl64 (sos_value (snd std) + sos_value (snd prem)))
         else total_sos_value r = rows_run_sum fl64 (shift_breakdown r))"
    by (rule conjunct1)
  with nights have "\<exists>r. calculate_compensation_fl fl64 (Date 2026 7 1) 0 1 0 0 ''Assistant Professor''
          [(''Women & Families Days'', 9), (''Clinic'', 1), (''Nights'', 34)] 2026 False 0
          = Inr r \<and>
        (\<exists>rows std prem.
           fst std = ''Standard Nights (first 21)'' \<and>
           fst prem = ''Premium Nights (after 21)'' \<and>
           shift_breakdown r = rows @ [std, prem] \<and>
           total_sos_value r =
             fl64 (rows_run_sum fl64 rows + fl64 (sos_value (snd std) + sos_value (snd prem))))"
    by (simp only: if_True)
  with keys show ?thesis by (rule conjI)
qed

text \<open>
  The claim as first stated (the total equals the sum of the rows) fails in binary64 for
  9 Women and Families days, 1 Clinic day and 34 nights: the rows are 13.499999999999998,
  1.0125, 31.5 and 22.75, the returned total is 68.7625, the sum of the rows taken in row
  order is 68.76249999999999, and the exact sum of the four doubles is neither.
\<close>

theorem total_sos_rows_mismatch_counterexample:
  "map_sum id (map (sos_value \<circ> snd) \<circ> shift_breakdown)
     (calculate_compensation_fl fl64 (Date 2026 7 1) 0 1 0 0 ''Assistant Professor''
        [(''Women & Families Days'', 9), (''Clinic'', 1), (''Nights'', 34)] 2026 False 0) =
     Inr [7599824371187711 / 562949953421312, 4559894622712627 / 4503599627370496, 63 / 2, 91 / 4] \<and>
   map_sum id total_sos_value
     (calculate_compensation_fl fl64 (Date 2026 7 1) 0 1 0 0 ''Assistant Professor''
        [(''Women & Families Days'', 9), (''Clinic'', 1), (''Nights'', 34)] 2026 False 0) = Inr (4838730771516621 / 70368744177664) \<and>
   sum_list [7599824371187711 / 562949953421312, 4559894622712627 / 4503599627370496, 63 / 2, 91 / 4] = (309678769377063723 / 4503599627370496 :: rat) \<and>
   foldl (\<lambda>acc x. fl64 (acc + x)) 0 [7599824371187711 / 562949953421312, 4559894622712627 / 4503599627370496, 63 / 2, 91 / 4] = 1209682692879155 / 17592186044416 \<and>
   (4838730771516621 / 70368744177664 :: rat) \<noteq> 309678769377063723 / 4503599627370496 \<and>
   (4838730771516621 / 70368744177664 :: rat) \<noteq> 1209682692879155 / 17592186044416"
proof -
  have f0: "fl64 (6 / 5) = 5404319552844595 / 4503599627370496" by code_simp
  have f1: "fl64 (48638875975601355 / 4503599627370496) = 6079859496950169 / 562949953421312" by code_simp
  have f2: "fl64 (5 / 4) = 5 / 4" by code_simp
  have f3: "fl64 (30399297484750845 / 2251799813685248) = 7599824371187711 / 562949953421312" by code_simp
  have f4: "fl64 (7599824371187711 / 562949953421312) = 7599824371187711 / 562949953421312" by code_simp
  have f5: "fl64 (6079859496950169 / 562949953421312) = 6079859496950169 / 562949953421312" by code_simp
  have f6: "fl64 (9 / 10) = 8106479329266893 / 9007199254740992" by code_simp
  have f7: "fl64 (8106479329266893 / 9007199254740992) = 8106479329266893 / 9007199254740992" by code_simp
  have f8: "fl64 (9 / 8) = 9 / 8" by code_simp
  have f9: "fl64 (72958313963402037 / 72057594037927936) = 4559894622712627 / 4503599627370496" by code_simp
  have f10: "fl64 (65358489592214315 / 4503599627370496) = 8169811199026789 / 562949953421312" by code_simp
  have f11: "fl64 (105384231280469597 / 9007199254740992) = 3293257227514675 / 281474976710656" by code_simp
  have f12: "fl64 (3 / 2) = 3 / 2" by code_simp
  have f13: "fl64 (63 / 2) = 63 / 2" by code_simp
  have f14: "fl64 (7 / 4) = 7 / 4" by code_simp
  have f15: "fl64 (91 / 4) = 91 / 4" by code_simp
  have f16: "fl64 (217 / 4) = 217 / 4" by code_simp
  have f17: "fl64 (38709846172132965 / 562949953421312) = 4838730771516621 / 70368744177664" by code_simp
  have f18: "fl64 (12863406435676979 / 281474976710656) = 3215851608919245 / 70368744177664" by code_simp
  have f19: "fl64 (25902734731798117 / 562949953421312) = 6475683682949529 / 140737488355328" by code_simp
  have f20: "fl64 (9677461543033241 / 140737488355328) = 1209682692879155 / 17592186044416" by code_simp
  from calculate_compensation_fl_returns [of fl64 "Date 2026 7 1" 0 1 0 0
      "''Assistant Professor''" "[(''Women & Families Days'', 9), (''Clinic'', 1), (''Nights'', 34)]" 2026 False 0]
  obtain r where call: "calculate_compensation_fl fl64 (Date 2026 7 1) 0 1 0 0 ''Assistant Professor''
        [(''Women & Families Days'', 9), (''Clinic'', 1), (''Nights'', 34)] 2026 False 0 = Inr r"
    and rows: "shift_breakdown r =
      fst (process_nights_fl fl64 [(''Women & Families Days'', 9), (''Clinic'', 1), (''Nights'', 34)]
        (shift_loop_fl fl64 [(''Women & Families Days'', 9), (''Clinic'', 1), (''Nights'', 34)] ([], 0, 0)))"
    and total: "total_sos_value r =
      fst (snd (process_nights_fl fl64 [(''Women & Families Days'', 9), (''Clinic'', 1), (''Nights'', 34)]
        (shift_loop_fl fl64 [(''Women & Families Days'', 9), (''Clinic'', 1), (''Nights'', 34)] ([], 0, 0))))"
    by blast
  have loop: "shift_loop_fl fl64 [(''Women & Families Days'', 9), (''Clinic'', 1), (''Nights'', 34)] ([], 0, 0) =
      ([(''Women & Families Days'', \<lparr>days = 9, shift_eq = 6079859496950169 / 562949953421312, sos_value = 7599824371187711 / 562949953421312\<rparr>),
        (''Clinic'', \<lparr>days = 1, shift_eq = 8106479329266893 / 9007199254740992, sos_value = 4559894622712627 / 4503599627370496\<rparr>)],
       8169811199026789 / 562949953421312, 3293257227514675 / 281474976710656)"
    by (simp add: shift_step_fl_def SHIFT_TYPES_def Let_def f0 f1 f2 f3 f4 f5 f6 f7 f8 f9 f10 f11 f12 f13 f14 f15 f16 f17 f18 f19 f20)
  have nights: "process_nights_fl fl64 [(''Women & Families Days'', 9), (''Clinic'', 1), (''Nights'', 34)]
      ([(''Women & Families Days'', \<lparr>days = 9, shift_eq = 6079859496950169 / 562949953421312, sos_value = 7599824371187711 / 562949953421312\<rparr>),
        (''Clinic'', \<lparr>days = 1, shift_eq = 8106479329266893 / 9007199254740992, sos_value = 4559894622712627 / 4503599627370496\<rparr>)],
       8169811199026789 / 562949953421312, 3293257227514675 / 281474976710656) =
      ([(''Women & Families Days'', \<lparr>days = 9, shift_eq = 6079859496950169 / 562949953421312, sos_value = 7599824371187711 / 562949953421312\<rparr>),
        (''Clinic'', \<lparr>days = 1, shift_eq = 8106479329266893 / 9007199254740992, sos_value = 4559894622712627 / 4503599627370496\<rparr>),
        (''Standard Nights (first 21)'', \<lparr>days = 21, shift_eq = 21, sos_value = 63 / 2\<rparr>),
        (''Premium Nights (after 21)'', \<lparr>days = 13, shift_eq = 13, sos_value = 91 / 4\<rparr>)],
       4838730771516621 / 70368744177664, 3215851608919245 / 70368744177664)"
    by (simp add: process_nights_fl_def dict_get_def Let_def NIGHT_STANDARD_THRESHOLD_def
        NIGHT_STANDARD_SOS_def NIGHT_PREMIUM_SOS_def f0 f1 f2 f3 f4 f5 f6 f7 f8 f9 f10 f11 f12 f13 f14 f15 f16 f17 f18 f19 f20)
  have rows': "shift_breakdown r =
      [(''Women & Families Days'', \<lparr>days = 9, shift_eq = 6079859496950169 / 562949953421312, sos_value = 7599824371187711 / 562949953421312\<rparr>),
        (''Clinic'', \<lparr>days = 1, shift_eq = 8106479329266893 / 9007199254740992, sos_value = 4559894622712627 / 4503599627370496\<rparr>),
        (''Standard Nights (first 21)'', \<lparr>days = 21, shift_eq = 21, sos_value = 63 / 2\<rparr>),
        (''Premium Nights (after 21)'', \<lparr>days = 13, shift_eq = 13, sos_value = 91 / 4\<rparr>)]"
    unfolding rows loop nights by simp
  have total': "total_sos_value r = 4838730771516621 / 70368744177664"
    unfolding total loop nights by simp
  have c1: "map_sum id (map (sos_value \<circ> snd) \<circ> shift_breakdown)
     (calculate_compensation_fl fl64 (Date 2026 7 1) 0 1 0 0 ''Assistant Professor''
        [(''Women & Families Days'', 9), (''Clinic'', 1), (''Nights'', 34)] 2026 False 0) =
     Inr [7599824371187711 / 562949953421312, 4559894622712627 / 4503599627370496, 63 / 2, 91 / 4]"
    unfolding call using rows' by simp
  have c2: "map_sum id total_sos_value
     (calculate_compensation_fl fl64 (Date 2026 7 1) 0 1 0 0 ''Assistant Professor''
        [(''Women & Families Days'', 9), (''Clinic'', 1), (''Nights'', 34)] 2026 False 0) = Inr (4838730771516621 / 70368744177664)"
    unfolding call using total' by simp
  have c3: "sum_list [7599824371187711 / 562949953421312, 4559894622712627 / 4503599627370496, 63 / 2, 91 / 4] = (309678769377063723 / 4503599627370496 :: rat)"
    by simp
  have c4: "foldl (\<lambda>acc x. fl64 (acc + x)) 0 [7599824371187711 / 562949953421312, 4559894622712627 / 4503599627370496, 63 / 2, 91 / 4] = 1209682692879155 / 17592186044416"
    by (simp add: f0 f1 f2 f3 f4 f5 f6 f7 f8 f9 f10 f11 f12 f13 f14 f15 f16 f17 f18 f19 f20)
  have c5: "(4838730771516621 / 70368744177664 :: rat) \<noteq> 309678769377063723 / 4503599627370496"
    by simp
  have c6: "(4838730771516621 / 70368744177664 :: rat) \<noteq> 1209682692879155 / 17592186044416"
    by simp
  from c1 c2 c3 c4 c5 c6 show ?thesis by (intro conjI)
qed

section \<open>Zero status FTE\<close>

text \<open>
  C9 (amended). With \<open>status_fte = 0\<close>, a non-negative other-department FTE and non-negative
  day counts: \<open>a_fte_adjusted = 0\<close>, \<open>hm_fte = 0\<close> (clamped), \<open>b_fte_adjusted = 0\<close> and
  \<open>addiction_board_bonus = 0\<close>; \<open>other_dept_comp\<close> is
  \<open>(addiction_fte + other_dept_fte) * 240000 * time_fraction\<close>, which does not depend on
  the status FTE, and the total is \<open>other_dept_comp + other_stipend\<close>. When moreover the
  other-department FTE is 0 and there are no Addiction days, \<open>other_dept_comp = 0\<close> and the
  total is the stipend alone.
\<close>

theorem zero_status_fte:
  assumes "0 \<le> other_dept_fte" and "list_all (\<lambda>(k, d). 0 \<le> d) shift_days"
  shows "\<exists>r. calculate_compensation start_date leave_days 0 non_clinical_fte other_dept_fte
          academic_rank shift_days graduation_year addiction_board_certified stipend = Inr r \<and>
        a_fte_adjusted r = 0 \<and> hm_fte r = 0 \<and> b_fte_adjusted r = 0 \<and>
        addiction_board_bonus r = 0 \<and>
        other_dept_comp r = (addiction_fte r + other_dept_fte) * 240000 * time_fraction r \<and>
        total_compensation r = other_dept_comp r + stipend \<and>
        (other_dept_fte = 0 \<and> dict_get shift_days ''Addiction'' 0 = 0 \<longrightarrow>
           other_dept_comp r = 0 \<and> total_compensation r = stipend)"
proof -
  obtain r where call: "calculate_compensation start_date leave_days 0 non_clinical_fte
      other_dept_fte academic_rank shift_days graduation_year addiction_board_certified stipend = Inr r"
    and a: "addiction_fte r = of_int (dict_get shift_days ''Addiction'' 0) / 183"
    and hm: "hm_fte r = max 0 (0 - other_dept_fte - addiction_fte r)"
    and afte: "a_fte_adjusted r = of_int (a_component r) * 0"
    and bfte: "b_fte_adjusted r = py_round ((b_with_experience r * hm_fte r - 105000 * 0) / 100) * 100"
    and od: "other_dept_comp r = (addiction_fte r + other_dept_fte) * 240000 * time_fraction r"
    and bonus: "addiction_board_bonus r =
       (if addiction_board_certified then 20000 * 0 * time_fraction r else 0)"
    and total: "total_compensation r =
       a_fte_adjusted r + of_int (b_fte_adjusted r) + other_dept_comp r
         + addiction_board_bonus r + stipend"
    using calculate_compensation_returns [of start_date leave_days 0 non_clinical_fte
        other_dept_fte academic_rank shift_days graduation_year addiction_board_certified stipend]
    by blast
  have "0 \<le> dict_get shift_days ''Addiction'' 0"
    using assms(2) by (rule dict_get_nonneg)
  with a have "0 \<le> addiction_fte r" by simp
  with assms(1) hm have hm0: "hm_fte r = 0" by simp
  have a0: "a_fte_adjusted r = 0" using afte by simp
  have b0: "b_fte_adjusted r = 0" using bfte hm0 by (simp add: py_round_def)
  have bonus0: "addiction_board_bonus r = 0" using bonus by simp
  have total': "total_compensation r = other_dept_comp r + stipend"
    using total a0 b0 bonus0 by simp
  have od0: "other_dept_comp r = 0"
    if "other_dept_fte = 0 \<and> dict_get shift_days ''Addiction'' 0 = 0"
    using that od a by simp
  from call a0 hm0 b0 bonus0 od total' od0 show ?thesis by auto
qed

theorem zero_status_fte_witness:
  "(0::rat) \<le> 0 \<and>
   list_all (\<lambda>(k, d). 0 \<le> d) [(''Teaching'', 42::int), (''Nights'', 28), (''Addiction'', 0)] \<and>
   (\<exists>r. calculate_compensation (Date 2026 7 1) 0 0 (1 / 10) 0 ''Professor''
          [(''Teaching'', 42), (''Nights'', 28), (''Addiction'', 0)] 2020 True 5000 = Inr r \<and>
        a_fte_adjusted r = 0 \<and> hm_fte r = 0 \<and> b_fte_adjusted r = 0 \<and>
        addiction_board_bonus r = 0 \<and> other_dept_comp r = 0 \<and>
        total_compensation r = 5000)"
proof -
  have od: "(0::rat) \<le> 0" by simp
  have days: "list_all (\<lambda>(k, d). 0 \<le> d) [(''Teaching'', 42::int), (''Nights'', 28), (''Addiction'', 0)]"
    by simp
  have none: "(0::rat) = 0 \<and>
      dict_get [(''Teaching'', 42::int), (''Nights'', 28), (''Addiction'', 0)] ''Addiction'' 0 = 0"
    by (simp add: dict_get_def)
  from zero_status_fte [OF od days, of "Date 2026 7 1" 0 "1 / 10" "''Professor''" 2020 True 5000] none
  have "\<exists>r. calculate_compensation (Date 2026 7 1) 0 0 (1 / 10) 0 ''Professor''
          [(''Teaching'', 42), (''Nights'', 28), (''Addiction'', 0)] 2020 True 5000 = Inr r \<and>
        a_fte_adjusted r = 0 \<and> hm_fte r = 0 \<and> b_fte_adjusted r = 0 \<and>
        addiction_board_bonus r = 0 \<and> other_dept_comp r = 0 \<and>
        total_compensation r = 5000"
    by blast
  with od days show ?thesis by (intro conjI)
qed

text \<open>
  The claim as first stated (\<open>other_dept_comp = 0\<close> and a total of the stipend alone) fails
  for status FTE 0 with other-department FTE 0.5 over the full year and no stipend:
  \<open>other_dept_comp\<close> and the total are both 120000.
\<close>

theorem zero_status_other_dept_counterexample:
  "(0::rat) \<le> 1 / 2 \<and>
   list_all (\<lambda>(k, d). 0 \<le> d)
     [(''Teaching'', 0::int), (''Women & Families Days'', 0), (''Nights'', 0), (''Episcopal'', 0),
      (''Clinic'', 0), (''Addiction'', 0), (''Direct Care Days'', 0)] \<and>
   map_sum id other_dept_comp
     (calculate_compensation (Date 2026 7 1) 0 0 0 (1 / 2) ''Assistant Professor''
        [(''Teaching'', 0), (''Women & Families Days'', 0), (''Nights'', 0), (''Episcopal'', 0),
         (''Clinic'', 0), (''Addiction'', 0), (''Direct Care Days'', 0)] 2026 False 0) = Inr 120000 \<and>
   map_sum id total_compensation
     (calculate_compensation (Date 2026 7 1) 0 0 0 (1 / 2) ''Assistant Professor''
        [(''Teaching'', 0), (''Women & Families Days'', 0), (''Nights'', 0), (''Episcopal'', 0),
         (''Clinic'', 0), (''Addiction'', 0), (''Direct Care Days'', 0)] 2026 False 0) = Inr 120000"
proof -
  have od: "(0::rat) \<le> 1 / 2" by simp
  have days: "list_all (\<lambda>(k, d). 0 \<le> d)
     [(''Teaching'', 0::int), (''Women & Families Days'', 0), (''Nights'', 0), (''Episcopal'', 0),
      (''Clinic'', 0), (''Addiction'', 0), (''Direct Care Days'', 0)]"
    by simp
  have comp: "map_sum id other_dept_comp
     (calculate_compensation (Date 2026 7 1) 0 0 0 (1 / 2) ''Assistant Professor''
        [(''Teaching'', 0), (''Women & Families Days'', 0), (''Nights'', 0), (''Episcopal'', 0),
         (''Clinic'', 0), (''Addiction'', 0), (''Direct Care Days'', 0)] 2026 False 0) = Inr 120000"
    by code_simp
  have total: "map_sum id total_compensation
     (calculate_compensation (Date 2026 7 1) 0 0 0 (1 / 2) ''Assistant Professor''
        [(''Teaching'', 0), (''Women & Families Days'', 0), (''Nights'', 0), (''Episcopal'', 0),
         (''Clinic'', 0), (''Addiction'', 0), (''Direct Care Days'', 0)] 2026 False 0) = Inr 120000"
    by code_simp
  from od days comp total show ?thesis by (intro conjI)
qed

section \<open>Unrecognised shift-type keys\<close>

text \<open>
  C10. Adding to the shift days, at any position, a key that is not in the shift-type
  catalog and is neither "Nights" nor "Addiction", with any day count, changes nothing:
  the two calls return the same result, field for field.
\<close>

theorem unknown_shift_key_ignored:
  assumes "k \<notin> set (map fst SHIFT_TYPES)" and "k \<noteq> ''Nights''" and "k \<noteq> ''Addiction''"
  shows "calculate_compensation start_date leave_days status_fte non_clinical_fte other_dept_fte
           academic_rank (xs @ (k, d) # ys) graduation_year addiction_board_certified stipend =
         calculate_compensation start_date leave_days status_fte non_clinical_fte other_dept_fte
           academic_rank (xs @ ys) graduation_year addiction_board_certified stipend"
proof -
  have loop: "shift_loop (xs @ (k, d) # ys) ([], 0, 0) = shift_loop (xs @ ys) ([], 0, 0)"
    using assms(1) by (rule shift_loop_extra_key)
  have nights: "process_nights (xs @ (k, d) # ys) acc = process_nights (xs @ ys) acc" for acc
    using assms(2) by (rule process_nights_extra_key)
  have addiction: "dict_get (xs @ (k, d) # ys) ''Addiction'' (0::int) = dict_get (xs @ ys) ''Addiction'' 0"
    using assms(3) by (simp add: dict_get_extra_key)
  show ?thesis
    unfolding calculate_compensation_def loop nights addiction ..
qed

theorem unknown_shift_key_ignored_witness:
  "''Vacation'' \<notin> set (map fst SHIFT_TYPES) \<and> ''Vacation'' \<noteq> ''Nights'' \<and>
   ''Vacation'' \<noteq> ''Addiction'' \<and>
   calculate_compensation (Date 2026 7 1) 0 1 0 0 ''Assistant Professor''
     ([(''Teaching'', 42)] @ (''Vacation'', 14) # [(''Nights'', 28)]) 2026 False 0 =
   calculate_compensation (Date 2026 7 1) 0 1 0 0 ''Assistant Professor''
     ([(''Teaching'', 42)] @ [(''Nights'', 28)]) 2026 False 0"
proof -
  have cat: "''Vacation'' \<notin> set (map fst SHIFT_TYPES)" by (simp add: SHIFT_TYPES_def)
  have n: "''Vacation'' \<noteq> ''Nights''" by simp
  have a: "''Vacation'' \<noteq> ''Addiction''" by simp
  from cat n a unknown_shift_key_ignored [OF cat n a, of "Date 2026 7 1" 0 1 0 0 "''Assistant Professor''"
      "[(''Teaching'', 42)]" 14 "[(''Nights'', 28)]" 2026 False 0]
  show ?thesis by (intro conjI)
qed

end
